theory Spec2Isabelle
  imports Main "HOL-Library.Sublist"
begin

section \<open>Strings, JSON values and exceptions\<close>

text \<open>
  A \<open>string\<close> is a Python \<^verbatim>\<open>str\<close> whose code points are below 256 (or the bytes of a
  file), one \<open>char\<close> for each. A \<open>json\<close> is a value that \<^verbatim>\<open>json.load\<close> or
  \<^verbatim>\<open>response.json()\<close> returns: \<open>JObject\<close> holds the items of the dictionary in their
  order (each key once), \<open>JNumber\<close> the number as it is written.

  Every exception that the modelled functions of \<^verbatim>\<open>story_generator.py\<close> and
  \<^verbatim>\<open>db_manager.py\<close> raise, or let through from a library call, is a value of
  \<open>error\<close>. The constructor records which \<^verbatim>\<open>raise\<close> it was; \<open>class_of\<close> gives
  the Python exception class.

  \<^item> \<open>ConnectFailed\<close>: \<^verbatim>\<open>ConnectionError("Failed to connect to local LLM server: ...")\<close>
  \<^item> \<open>BadStatus n\<close>: \<^verbatim>\<open>ConnectionError("Server returned status code n")\<close>
  \<^item> \<open>InvalidResponse\<close>: the body of the reply is not JSON; both handlers of
    \<^verbatim>\<open>load_llm\<close> turn this into a \<^verbatim>\<open>ConnectionError\<close>
  \<^item> \<open>ModelNotFound m ms\<close>: \<^verbatim>\<open>ConnectionError("Model m not found in available models: ms")\<close>
  \<^item> \<open>NoAttributeGet\<close>: the \<^verbatim>\<open>AttributeError\<close> of \<^verbatim>\<open>x.get(...)\<close> on a value that is not a
    dictionary
  \<^item> \<open>NotIterable\<close>: the \<^verbatim>\<open>TypeError\<close> of a \<^verbatim>\<open>for\<close> over a value that cannot be iterated
  \<^item> \<open>NoDocumentsSelected\<close>: \<^verbatim>\<open>ValueError("No documents selected for RAG mode")\<close>
  \<^item> \<open>NoDocumentsAvailable\<close>: \<^verbatim>\<open>ValueError("No documents available for RAG mode")\<close>
  \<^item> \<open>GenerationFailed e\<close>: \<^verbatim>\<open>ValueError("Failed to generate story: " + str(e))\<close>
  \<^item> \<open>UnsupportedFormat f\<close>: \<^verbatim>\<open>ValueError("Unsupported format: " + f)\<close>
  \<^item> \<open>KeyError k\<close>: a dictionary subscript with a key that is absent
  \<^item> the others are failures of the file system and of the libraries the code calls.
\<close>

datatype json =
    JNull
  | JBool bool
  | JNumber string
  | JString string
  | JArray "json list"
  | JObject "(string \<times> json) list"

datatype error =
    ConnectFailed
  | BadStatus nat
  | InvalidResponse
  | ModelNotFound string "json list"
  | NoAttributeGet
  | NotIterable
  | NoDocumentsSelected
  | NoDocumentsAvailable
  | GenerationFailed error
  | UnsupportedFormat string
  | KeyError string
  | FileReadError string
  | FileWriteError string
  | JSONDecodeError
  | LoaderError string
  | EmbeddingError
  | IndexLoadError
  | IndexBuildError
  | LLMError
  | DatabaseError

datatype exception_class =
  ConnectionError | ValueError | AttributeError | TypeError | OtherException

fun class_of :: "error \<Rightarrow> exception_class" where
  "class_of ConnectFailed = ConnectionError"
| "class_of (BadStatus n) = ConnectionError"
| "class_of InvalidResponse = ConnectionError"
| "class_of (ModelNotFound m ms) = ConnectionError"
| "class_of NoAttributeGet = AttributeError"
| "class_of NotIterable = TypeError"
| "class_of NoDocumentsSelected = ValueError"
| "class_of NoDocumentsAvailable = ValueError"
| "class_of (GenerationFailed e) = ValueError"
| "class_of (UnsupportedFormat f) = ValueError"
| "class_of e = OtherException"

section \<open>Configuration (config.py)\<close>

text \<open>\<^verbatim>\<open>os.path.join\<close> on two components, as \<^verbatim>\<open>posixpath\<close> defines it.\<close>

definition os_path_join :: "string \<Rightarrow> string \<Rightarrow> string" where
  "os_path_join a b =
     (if prefix ''/'' b then b
      else if a = [] \<or> suffix ''/'' a then a @ b
      else a @ ''/'' @ b)"

text \<open>\<^verbatim>\<open>os.path.dirname\<close>, as \<^verbatim>\<open>posixpath\<close> defines it: the part up to the last \<^verbatim>\<open>/\<close>,
  without its trailing slashes unless it consists of slashes only.\<close>

definition rstrip_slash :: "string \<Rightarrow> string" where
  "rstrip_slash s = rev (dropWhile (\<lambda>c. c = CHR ''/'') (rev s))"

definition os_path_dirname :: "string \<Rightarrow> string" where
  "os_path_dirname p =
     (let head = rev (dropWhile (\<lambda>c. c \<noteq> CHR ''/'') (rev p))
      in if head \<noteq> [] \<and> rstrip_slash head \<noteq> [] then rstrip_slash head else head)"

definition DOCS_PATH :: string where
  "DOCS_PATH = ''./docs''"

definition INDEX_PATH :: string where
  "INDEX_PATH = ''./faiss_index''"

definition HASH_DB_PATH :: string where
  "HASH_DB_PATH = ''./hash_index.json''"

definition MEMORY_STORIES_PATH :: string where
  "MEMORY_STORIES_PATH = os_path_join DOCS_PATH ''memory_stories''"

section \<open>Storytelling style presets\<close>

definition CREATIVE_STORYTELLER_PROMPT :: string where
  \<open>CREATIVE_STORYTELLER_PROMPT =
     ''You are a creative storyteller with a deep understanding of narrative structure and character development. \<newline>'' @
     ''Your task is to generate engaging, immersive stories based on user prompts. \<newline>'' @
     ''When given a scene or prompt:\<newline>'' @
     ''1. Create vivid descriptions that engage the senses\<newline>'' @
     ''2. Develop characters with depth and personality\<newline>'' @
     ''3. Maintain consistent narrative flow\<newline>'' @
     ''4. Use appropriate pacing and tension\<newline>'' @
     ''5. Incorporate relevant context from provided documents when in RAG mode\<newline>'' @
     ''6. Keep the story coherent and engaging\<newline>'' @
     ''\<newline>'' @
     ''Remember to:\<newline>'' @
     ''- Stay in character as a storyteller\<newline>'' @
     ''- Use descriptive language\<newline>'' @
     ''- Create emotional resonance\<newline>'' @
     ''- Maintain narrative consistency''\<close>

definition ONE_PIECE_WRITER_PROMPT :: string where
  \<open>ONE_PIECE_WRITER_PROMPT =
     ''You are a masterful storyteller deeply familiar with the world of One Piece, created by Eiichiro Oda. Your task is to write engaging, original short stories set within the One Piece universe, introducing new characters that seamlessly fit into its world.\<newline>'' @
     ''\<newline>'' @
     ''The stories must reflect the tone, themes, and worldbuilding style of One Piece, including:\<newline>'' @
     ''\<newline>'' @
     ''Grand adventures, camaraderie, and humor\<newline>'' @
     ''\<newline>'' @
     ''Pirate crews, Marines, bounty hunters, and Revolutionary Army dynamics\<newline>'' @
     ''\<newline>'' @
     ''Devil Fruits and Haki systems\<newline>'' @
     ''\<newline>'' @
     ''Unique islands and cultures across the Grand Line and beyond\<newline>'' @
     ''\<newline>'' @
     ''Creative powers, exaggerated personalities, and heartfelt motivations\<newline>'' @
     ''\<newline>'' @
     ''Character Creation Guidelines:\<newline>'' @
     ''\<newline>'' @
     ''Design characters with distinct quirks, dreams, and backstories.\<newline>'' @
     ''\<newline>'' @
     ''Assign them fitting roles (e.g., pirate captain, Marine scientist, revolutionary agent, bounty hunter).\<newline>'' @
     ''\<newline>'' @
     ''Include Devil Fruit abilities (if applicable), creative weapons, or Haki types.\<newline>'' @
     ''\<newline>'' @
     ''Narrative Requirements:\<newline>'' @
     ''\<newline>'' @
     ''Each short story should be 400 to 800 words.\<newline>'' @
     ''\<newline>'' @
     ''Introduce the new character naturally within an exciting or emotional scene.\<newline>'' @
     ''\<newline>'' @
     ''Capture the charm, humor, and emotional depth typical of One Piece arcs.\<newline>'' @
     ''\<newline>'' @
     ''Avoid using canon characters directly; brief references (e.g., "a pirate known as Straw Hat") are acceptable.\<newline>'' @
     ''\<newline>'' @
     ''Prioritize creativity, emotional resonance, and narrative immersion. Keep the tone accessible for fans of the anime and manga, with a flair for imaginative action and heartfelt character development.''\<close>

definition STORY_STYLES :: "string \<rightharpoonup> string" where
  "STORY_STYLES =
     [''Creative Storyteller'' \<mapsto> CREATIVE_STORYTELLER_PROMPT,
      ''One Piece Writer'' \<mapsto> ONE_PIECE_WRITER_PROMPT]"

text \<open>A dictionary subscript \<^verbatim>\<open>d[k]\<close> raises \<^verbatim>\<open>KeyError\<close> on an absent key;
  \<^verbatim>\<open>d.get(k, default)\<close> returns the default.\<close>

definition subscript :: "(string \<rightharpoonup> 'v) \<Rightarrow> string \<Rightarrow> error + 'v" where
  "subscript d k = (case d k of None \<Rightarrow> Inl (KeyError k) | Some v \<Rightarrow> Inr v)"

definition dict_get :: "('k \<rightharpoonup> 'v) \<Rightarrow> 'k \<Rightarrow> 'v \<Rightarrow> 'v" where
  "dict_get d k dflt = (case d k of None \<Rightarrow> dflt | Some v \<Rightarrow> v)"

text \<open>
  The first statement of \<^verbatim>\<open>generate_story\<close> that depends on its arguments:
  \<^verbatim>\<open>system_prompt = custom_prompt or STORY_STYLES.get(selected_style, STORY_STYLES["Creative Storyteller"])\<close>.
  \<^verbatim>\<open>or\<close> evaluates its right operand only when the left one is falsy (the empty
  string), and the default argument of \<^verbatim>\<open>get\<close> is evaluated before the call.
\<close>

definition choose_system_prompt :: "string \<Rightarrow> string \<Rightarrow> error + string" where
  "choose_system_prompt custom_prompt selected_style =
     (if custom_prompt \<noteq> [] then Inr custom_prompt
      else case subscript STORY_STYLES ''Creative Storyteller'' of
             Inl e \<Rightarrow> Inl e
           | Inr dflt \<Rightarrow> Inr (dict_get STORY_STYLES selected_style dflt))"

section \<open>Data model and the world outside the program\<close>

text \<open>A langchain \<^verbatim>\<open>Document\<close>: its text and the \<^verbatim>\<open>source\<close> entry of its metadata.\<close>

record document =
  page_content :: string
  source :: string

text \<open>
  One file name that \<^verbatim>\<open>os.walk(path)\<close> yields, in the order of the two nested loops of
  \<^verbatim>\<open>load_documents\<close>: \<open>file_name\<close> is \<^verbatim>\<open>file\<close>, \<open>rel_path\<close> is the value of
  \<^verbatim>\<open>os.path.relpath(os.path.join(root, file), path)\<close>, \<open>is_file\<close> is
  \<^verbatim>\<open>os.path.isfile(full_path)\<close> and \<open>bytes\<close> is what \<^verbatim>\<open>open(full_path, "rb").read()\<close>
  returns (\<open>None\<close> when it raises).
\<close>

record dir_entry =
  file_name :: string
  rel_path :: string
  is_file :: bool
  bytes :: "string option"

text \<open>The persisted fingerprint file \<^verbatim>\<open>hash_index.json\<close> and the persisted FAISS index.\<close>

datatype hash_file = Missing | Malformed | Stored "string \<rightharpoonup> string"

datatype index_store = NoIndex | CorruptIndex | Index "document list"

text \<open>A row of the \<^verbatim>\<open>stories\<close> table, in column order.\<close>

record story_row =
  row_id :: nat
  row_prompt :: string
  row_response :: string
  row_system_prompt :: "string option"
  row_style :: "string option"
  row_created_at :: string
  row_mode :: "string option"
  row_memory_added :: int

datatype http_call = GetModels | ChatCompletion

text \<open>The reply of the model server to \<^verbatim>\<open>GET {base_url}/models\<close>.\<close>

datatype models_body = NotJson | Json json

datatype models_reply = NoReply | Reply nat models_body

text \<open>
  \<open>env\<close> collects what the program reads from outside and the behaviour of the
  libraries it calls; none of it is changed by the program. \<open>state\<close> is everything
  the program writes: the fingerprint file, the index, the text files it creates, the
  \<^verbatim>\<open>stories\<close> table, and the log of the HTTP requests sent to the model server.

  \<^item> \<open>walk path\<close>: the files \<^verbatim>\<open>os.walk(path)\<close> yields, in order, when
    \<^verbatim>\<open>load_documents\<close> is called; a story file that an earlier call wrote below the
    documents directory is a file of this listing only if the environment lists it.
  \<^item> \<open>md5_hexdigest\<close>: \<^verbatim>\<open>hashlib.md5(b).hexdigest()\<close>.
  \<^item> \<open>decode_text\<close>: the text of a file's bytes, as \<^verbatim>\<open>TextLoader\<close> reads it;
    \<open>pdf_pages\<close>: the texts of the pages that \<^verbatim>\<open>pypdf\<close> extracts; \<open>docx2txt_process\<close>:
    the text that \<^verbatim>\<open>docx2txt.process\<close> extracts; each is \<open>None\<close> when the library
    raises on that content.
  \<^item> \<open>split_documents\<close>: the \<^verbatim>\<open>RecursiveCharacterTextSplitter\<close> with the configured
    chunk size and overlap.
  \<^item> \<open>from_documents\<close>, \<open>add_documents\<close>: \<^verbatim>\<open>FAISS.from_documents\<close> and
    \<^verbatim>\<open>vectordb.add_documents\<close>; \<open>None\<close> when they raise.
  \<^item> \<open>embedder_loads\<close>: whether \<^verbatim>\<open>SentenceTransformerEmbeddings(...)\<close> returns.
  \<^item> \<open>can_write p\<close>: whether \<^verbatim>\<open>p\<close> can be opened for writing.
  \<^item> \<open>models_endpoint\<close>, \<open>llm_model\<close>: the server's reply to the probe and the value
    of \<^verbatim>\<open>LOCAL_LLM_SETTINGS["model"]\<close>.
  \<^item> \<open>llm_invoke\<close>, \<open>chain_call\<close>: the text the chat completion returns for a system
    and a user message, and the answer and sources the retrieval chain returns for an
    index and a question; \<open>None\<close> when the call raises.
  \<^item> \<open>now_isoformat\<close>: \<^verbatim>\<open>datetime.now().isoformat()\<close>.
  \<^item> \<open>db_reachable\<close>: whether the SQLite statements succeed; \<open>db_next_id\<close>,
    \<open>db_current_timestamp\<close> and \<open>order_by_created_at_desc\<close> are the row id, the
    creation time and the row order that the database gives (the schema is not part of
    the Python sources).
\<close>

record env =
  walk :: "string \<Rightarrow> dir_entry list"
  md5_hexdigest :: "string \<Rightarrow> string"
  decode_text :: "string \<Rightarrow> string option"
  pdf_pages :: "string \<Rightarrow> string list option"
  docx2txt_process :: "string \<Rightarrow> string option"
  split_documents :: "document list \<Rightarrow> document list"
  from_documents :: "document list \<Rightarrow> document list option"
  add_documents :: "document list \<Rightarrow> document list \<Rightarrow> document list option"
  embedder_loads :: bool
  can_write :: "string \<Rightarrow> bool"
  models_endpoint :: models_reply
  llm_model :: string
  llm_invoke :: "string \<Rightarrow> string \<Rightarrow> string option"
  chain_call :: "document list \<Rightarrow> string \<Rightarrow> (string \<times> string) option"
  now_isoformat :: string
  db_reachable :: bool
  db_next_id :: "story_row list \<Rightarrow> nat"
  db_current_timestamp :: string
  order_by_created_at_desc :: "story_row list \<Rightarrow> story_row list"

record state =
  hash_db_file :: hash_file
  faiss_index :: index_store
  text_files :: "string \<rightharpoonup> string"
  stories :: "story_row list"
  http_log :: "http_call list"

section \<open>Content fingerprint store\<close>

definition load_hash_db :: "state \<Rightarrow> error + (string \<rightharpoonup> string)" where
  "load_hash_db s =
     (case hash_db_file s of
        Missing \<Rightarrow> Inr Map.empty
      | Malformed \<Rightarrow> Inl JSONDecodeError
      | Stored m \<Rightarrow> Inr m)"

definition update_hash_db :: "env \<Rightarrow> (string \<rightharpoonup> string) \<Rightarrow> state \<Rightarrow> (error + unit) \<times> state" where
  "update_hash_db env new_hashes s =
     (case load_hash_db s of
        Inl e \<Rightarrow> (Inl e, s)
      | Inr hash_db \<Rightarrow>
          if can_write env HASH_DB_PATH
          then (Inr (), s\<lparr>hash_db_file := Stored (hash_db ++ new_hashes)\<rparr>)
          else (Inl (FileWriteError HASH_DB_PATH), s))"

text \<open>The hash that the fingerprint store holds for a path (\<open>None\<close> when it holds
  none or cannot be read).\<close>

definition stored_hash :: "state \<Rightarrow> string \<Rightarrow> string option" where
  "stored_hash s rp = (case load_hash_db s of Inl e \<Rightarrow> None | Inr hash_db \<Rightarrow> hash_db rp)"

section \<open>Document loader\<close>

definition endswith :: "string \<Rightarrow> string \<Rightarrow> bool" where
  "endswith s suf = suffix suf s"

text \<open>Opening and reading the file at \<open>filepath\<close>, which is the file of entry \<open>f\<close>.\<close>

definition read_file :: "string \<Rightarrow> dir_entry \<Rightarrow> error + string" where
  "read_file filepath f =
     (case bytes f of
        None \<Rightarrow> Inl (FileReadError filepath)
      | Some b \<Rightarrow> Inr b)"

definition hash_file :: "env \<Rightarrow> string \<Rightarrow> dir_entry \<Rightarrow> error + string" where
  "hash_file env filepath f =
     (case read_file filepath f of
        Inl e \<Rightarrow> Inl e
      | Inr b \<Rightarrow> Inr (md5_hexdigest env b))"

text \<open>\<^verbatim>\<open>selected_files and rel_path not in selected_files\<close>: \<^verbatim>\<open>None\<close> and the empty
  list are both falsy.\<close>

definition not_selected :: "string list option \<Rightarrow> string \<Rightarrow> bool" where
  "not_selected selected_files rp =
     (case selected_files of
        None \<Rightarrow> False
      | Some sel \<Rightarrow> sel \<noteq> [] \<and> rp \<notin> set sel)"

text \<open>
  The \<^verbatim>\<open>load()\<close> of the three langchain loaders. Each opens the file at the path it
  was built with. \<^verbatim>\<open>TextLoader\<close> and \<^verbatim>\<open>Docx2txtLoader\<close> return one document with the
  whole text, \<^verbatim>\<open>PyPDFLoader\<close> one document for each page; every document has the path as
  the \<^verbatim>\<open>source\<close> of its metadata.
\<close>

definition TextLoader :: "env \<Rightarrow> string \<Rightarrow> dir_entry \<Rightarrow> error + document list" where
  "TextLoader env file_path f =
     (case read_file file_path f of
        Inl e \<Rightarrow> Inl e
      | Inr b \<Rightarrow>
          (case decode_text env b of
             None \<Rightarrow> Inl (LoaderError file_path)
           | Some text \<Rightarrow> Inr [\<lparr>page_content = text, source = file_path\<rparr>]))"

definition PyPDFLoader :: "env \<Rightarrow> string \<Rightarrow> dir_entry \<Rightarrow> error + document list" where
  "PyPDFLoader env file_path f =
     (case read_file file_path f of
        Inl e \<Rightarrow> Inl e
      | Inr b \<Rightarrow>
          (case pdf_pages env b of
             None \<Rightarrow> Inl (LoaderError file_path)
           | Some pages \<Rightarrow>
               Inr (map (\<lambda>page. \<lparr>page_content = page, source = file_path\<rparr>) pages)))"

definition Docx2txtLoader :: "env \<Rightarrow> string \<Rightarrow> dir_entry \<Rightarrow> error + document list" where
  "Docx2txtLoader env file_path f =
     (case read_file file_path f of
        Inl e \<Rightarrow> Inl e
      | Inr b \<Rightarrow>
          (case docx2txt_process env b of
             None \<Rightarrow> Inl (LoaderError file_path)
           | Some text \<Rightarrow> Inr [\<lparr>page_content = text, source = file_path\<rparr>]))"

text \<open>The \<^verbatim>\<open>if\<close>/\<^verbatim>\<open>elif\<close> chain that picks the loader by extension.\<close>

definition run_loader :: "env \<Rightarrow> string \<Rightarrow> string \<Rightarrow> dir_entry \<Rightarrow> error + document list" where
  "run_loader env file full_path f =
     (if endswith file ''.txt'' then TextLoader env full_path f
      else if endswith file ''.pdf'' then PyPDFLoader env full_path f
      else if endswith file ''.docx'' then Docx2txtLoader env full_path f
      else Inr [])"

text \<open>
  The body of the inner loop for one file: \<open>acc\<close> is the pair of the local variables
  \<^verbatim>\<open>docs\<close> and \<^verbatim>\<open>hashes\<close>. Every \<^verbatim>\<open>continue\<close> returns the pair as it was.
\<close>

definition load_file ::
  "env \<Rightarrow> string \<Rightarrow> string list option \<Rightarrow> (string \<rightharpoonup> string) \<Rightarrow> dir_entry
     \<Rightarrow> document list \<times> (string \<rightharpoonup> string) \<Rightarrow> error + document list \<times> (string \<rightharpoonup> string)" where
  "load_file env path selected_files hash_db f acc =
     (if \<not> (endswith (file_name f) ''.txt'' \<or> endswith (file_name f) ''.pdf''
             \<or> endswith (file_name f) ''.docx'') then Inr acc
      else if not_selected selected_files (rel_path f) then Inr acc
      else let full_path = os_path_join path (rel_path f) in
        if \<not> is_file f then Inr acc
        else
          (case hash_file env full_path f of
             Inl e \<Rightarrow> Inl e
           | Inr file_hash \<Rightarrow>
               if hash_db (rel_path f) = Some file_hash then Inr acc
               else
                 (case run_loader env (file_name f) full_path f of
                    Inl e \<Rightarrow> Inl e
                  | Inr ds \<Rightarrow>
                      (case acc of (docs, hashes) \<Rightarrow>
                         Inr (docs @ ds, hashes(rel_path f \<mapsto> file_hash))))))"

fun walk_files ::
  "env \<Rightarrow> string \<Rightarrow> string list option \<Rightarrow> (string \<rightharpoonup> string) \<Rightarrow> dir_entry list
     \<Rightarrow> document list \<times> (string \<rightharpoonup> string) \<Rightarrow> error + document list \<times> (string \<rightharpoonup> string)" where
  "walk_files env path selected_files hash_db [] acc = Inr acc"
| "walk_files env path selected_files hash_db (f # fs) acc =
     (case load_file env path selected_files hash_db f acc of
        Inl e \<Rightarrow> Inl e
      | Inr acc' \<Rightarrow> walk_files env path selected_files hash_db fs acc')"

definition load_documents ::
  "env \<Rightarrow> string \<Rightarrow> string list option \<Rightarrow> state \<Rightarrow> (error + document list) \<times> state" where
  "load_documents env path selected_files s =
     (case load_hash_db s of
        Inl e \<Rightarrow> (Inl e, s)
      | Inr hash_db \<Rightarrow>
          (case walk_files env path selected_files hash_db (walk env path) ([], Map.empty) of
             Inl e \<Rightarrow> (Inl e, s)
           | Inr (docs, hashes) \<Rightarrow>
               (case update_hash_db env hashes s of
                  (Inl e, s') \<Rightarrow> (Inl e, s')
                | (Inr u, s') \<Rightarrow> (Inr docs, s'))))"

section \<open>Vector index\<close>

text \<open>
  A loaded FAISS store is the list of the chunks it holds.
  \<^verbatim>\<open>SentenceTransformerEmbeddings(...)\<close> raises when the embedding model cannot be
  loaded; \<^verbatim>\<open>FAISS.load_local\<close> raises when there is no index at \<^verbatim>\<open>INDEX_PATH\<close> or it
  cannot be read.
\<close>

definition load_local :: "state \<Rightarrow> error + document list" where
  "load_local s =
     (case faiss_index s of
        Index ix \<Rightarrow> Inr ix
      | NoIndex \<Rightarrow> Inl IndexLoadError
      | CorruptIndex \<Rightarrow> Inl IndexLoadError)"

definition load_vectordb :: "env \<Rightarrow> state \<Rightarrow> (error + document list) \<times> state" where
  "load_vectordb env s =
     (if \<not> embedder_loads env then (Inl EmbeddingError, s)
      else (load_local s, s))"

definition save_local :: "env \<Rightarrow> document list \<Rightarrow> state \<Rightarrow> (error + document list) \<times> state" where
  "save_local env vectordb s =
     (if can_write env INDEX_PATH then (Inr vectordb, s\<lparr>faiss_index := Index vectordb\<rparr>)
      else (Inl (FileWriteError INDEX_PATH), s))"

text \<open>\<^verbatim>\<open>os.path.exists(INDEX_PATH)\<close>\<close>

definition index_exists :: "state \<Rightarrow> bool" where
  "index_exists s = (faiss_index s \<noteq> NoIndex)"

definition append_to_index :: "env \<Rightarrow> document list \<Rightarrow> state \<Rightarrow> (error + document list) \<times> state" where
  "append_to_index env new_docs s =
     (if new_docs = [] then load_vectordb env s
      else let chunks = split_documents env new_docs in
        if \<not> embedder_loads env then (Inl EmbeddingError, s)
        else if index_exists s then
          (case load_local s of
             Inl e \<Rightarrow> (Inl e, s)
           | Inr vectordb \<Rightarrow>
               (case add_documents env vectordb chunks of
                  None \<Rightarrow> (Inl IndexBuildError, s)
                | Some vectordb' \<Rightarrow> save_local env vectordb' s))
        else
          (case from_documents env chunks of
             None \<Rightarrow> (Inl IndexBuildError, s)
           | Some vectordb \<Rightarrow> save_local env vectordb s))"

section \<open>Model server\<close>

datatype llm = ChatOpenAI

text \<open>
  \<^verbatim>\<open>load_llm\<close> sends \<^verbatim>\<open>requests.get(f"{base_url}/models", timeout=5)\<close> before anything
  else; the request is logged whether or not the server answers. The argument
  \<^verbatim>\<open>system_prompt\<close> is not used by the body. The two handlers turn an exception of
  \<^verbatim>\<open>requests\<close> and a body that is not JSON into a \<^verbatim>\<open>ConnectionError\<close>; the
  \<^verbatim>\<open>AttributeError\<close> and \<^verbatim>\<open>TypeError\<close> of
  \<^verbatim>\<open>[model.get("id") for model in models_data.get("data", [])]\<close> on JSON of another shape
  pass through them. \<open>iterate\<close> is what a \<^verbatim>\<open>for\<close> loop goes through (the keys of a
  dictionary, the characters of a string), \<open>json_get\<close> is \<^verbatim>\<open>v.get(k, default)\<close>, and a
  string is \<^verbatim>\<open>in\<close> the list when the list holds that JSON string.
\<close>

definition iterate :: "json \<Rightarrow> error + json list" where
  "iterate v =
     (case v of
        JArray xs \<Rightarrow> Inr xs
      | JObject items \<Rightarrow> Inr (map (\<lambda>(k, x). JString k) items)
      | JString s \<Rightarrow> Inr (map (\<lambda>c. JString [c]) s)
      | JNull \<Rightarrow> Inl NotIterable
      | JBool b \<Rightarrow> Inl NotIterable
      | JNumber n \<Rightarrow> Inl NotIterable)"

definition json_get :: "json \<Rightarrow> string \<Rightarrow> json \<Rightarrow> error + json" where
  "json_get v k dflt =
     (case v of
        JObject items \<Rightarrow> Inr (dict_get (map_of items) k dflt)
      | JNull \<Rightarrow> Inl NoAttributeGet
      | JBool b \<Rightarrow> Inl NoAttributeGet
      | JNumber n \<Rightarrow> Inl NoAttributeGet
      | JString s \<Rightarrow> Inl NoAttributeGet
      | JArray xs \<Rightarrow> Inl NoAttributeGet)"

fun model_ids :: "json list \<Rightarrow> error + json list" where
  "model_ids [] = Inr []"
| "model_ids (model # models) =
     (case json_get model ''id'' JNull of
        Inl e \<Rightarrow> Inl e
      | Inr i \<Rightarrow>
          (case model_ids models of
             Inl e \<Rightarrow> Inl e
           | Inr ids \<Rightarrow> Inr (i # ids)))"

definition available_models :: "json \<Rightarrow> error + json list" where
  "available_models models_data =
     (case json_get models_data ''data'' (JArray []) of
        Inl e \<Rightarrow> Inl e
      | Inr data \<Rightarrow>
          (case iterate data of
             Inl e \<Rightarrow> Inl e
           | Inr models \<Rightarrow> model_ids models))"

definition load_llm :: "env \<Rightarrow> string \<Rightarrow> state \<Rightarrow> (error + llm) \<times> state" where
  "load_llm env system_prompt s =
     (let s' = s\<lparr>http_log := http_log s @ [GetModels]\<rparr> in
      case models_endpoint env of
        NoReply \<Rightarrow> (Inl ConnectFailed, s')
      | Reply status_code body \<Rightarrow>
          if status_code \<noteq> 200 then (Inl (BadStatus status_code), s')
          else
            (case body of
               NotJson \<Rightarrow> (Inl InvalidResponse, s')
             | Json models_data \<Rightarrow>
                 (case available_models models_data of
                    Inl e \<Rightarrow> (Inl e, s')
                  | Inr ids \<Rightarrow>
                      if JString (llm_model env) \<notin> set ids
                      then (Inl (ModelNotFound (llm_model env) ids), s')
                      else (Inr ChatOpenAI, s'))))"

text \<open>\<^verbatim>\<open>llm.invoke(messages)\<close> with a system and a user message: one chat-completion
  request.\<close>

definition invoke :: "env \<Rightarrow> llm \<Rightarrow> string \<Rightarrow> string \<Rightarrow> state \<Rightarrow> (error + string) \<times> state" where
  "invoke env l system_content user_content s =
     (let s' = s\<lparr>http_log := http_log s @ [ChatCompletion]\<rparr> in
      case llm_invoke env system_content user_content of
        None \<Rightarrow> (Inl LLMError, s')
      | Some content \<Rightarrow> (Inr content, s'))"

text \<open>Calling the \<^verbatim>\<open>RetrievalQAWithSourcesChain\<close> built from the LLM and the index: it
  returns the answer and the sources.\<close>

definition run_chain ::
  "env \<Rightarrow> llm \<Rightarrow> document list \<Rightarrow> string \<Rightarrow> state \<Rightarrow> (error + string \<times> string) \<times> state" where
  "run_chain env l vectordb question s =
     (let s' = s\<lparr>http_log := http_log s @ [ChatCompletion]\<rparr> in
      case chain_call env vectordb question of
        None \<Rightarrow> (Inl LLMError, s')
      | Some result \<Rightarrow> (Inr result, s'))"

section \<open>Story memory and story table\<close>

text \<open>\<^verbatim>\<open>s.replace(old, new)\<close> for one-character \<^verbatim>\<open>old\<close> and \<^verbatim>\<open>new\<close>.\<close>

definition replace_char :: "char \<Rightarrow> char \<Rightarrow> string \<Rightarrow> string" where
  "replace_char old new s = map (\<lambda>c. if c = old then new else c) s"

definition store_story_to_memory :: "env \<Rightarrow> string \<Rightarrow> string \<Rightarrow> state \<Rightarrow> (error + string) \<times> state" where
  "store_story_to_memory env story_text timestamp s =
     (let filename = ''story_'' @ replace_char CHR ''T'' CHR ''_'' (replace_char CHR '':'' CHR ''-'' timestamp) @ ''.txt'';
          path = os_path_join MEMORY_STORIES_PATH filename;
          written = ''[Time: '' @ timestamp @ '']\<newline>\<newline>'' @ story_text @ ''\<newline>'';
          fs = text_files s
      in if can_write env path then (Inr path, s\<lparr>text_files := fs(path \<mapsto> written)\<rparr>)
         else (Inl (FileWriteError path), s))"

text \<open>\<^verbatim>\<open>DatabaseManager.add_story\<close>: the id and the creation time of the new row are
  given by the database.\<close>

definition add_story ::
  "env \<Rightarrow> string \<Rightarrow> string \<Rightarrow> string option \<Rightarrow> string option \<Rightarrow> string option \<Rightarrow> bool
     \<Rightarrow> state \<Rightarrow> (error + nat) \<times> state" where
  "add_story env prompt response system_prompt style mode memory_added s =
     (if \<not> db_reachable env then (Inl DatabaseError, s)
      else let lastrowid = db_next_id env (stories s);
               row = \<lparr>row_id = lastrowid, row_prompt = prompt, row_response = response,
                      row_system_prompt = system_prompt, row_style = style,
                      row_created_at = db_current_timestamp env, row_mode = mode,
                      row_memory_added = (if memory_added then 1 else 0)\<rparr>
           in (Inr lastrowid, s\<lparr>stories := stories s @ [row]\<rparr>))"

text \<open>\<^verbatim>\<open>DatabaseManager.export_all_stories\<close>: the query runs first, the format is looked
  at afterwards.\<close>

record story_json =
  json_id :: nat
  json_prompt :: string
  json_response :: string
  json_system_prompt :: "string option"
  json_style :: "string option"
  json_created_at :: string
  json_mode :: "string option"
  json_memory_added :: bool

datatype export = JsonExport "story_json list" | CsvExport "story_row list"

definition story_to_json :: "story_row \<Rightarrow> story_json" where
  "story_to_json story =
     \<lparr>json_id = row_id story, json_prompt = row_prompt story,
      json_response = row_response story, json_system_prompt = row_system_prompt story,
      json_style = row_style story, json_created_at = row_created_at story,
      json_mode = row_mode story, json_memory_added = (row_memory_added story \<noteq> 0)\<rparr>"

definition export_all_stories :: "env \<Rightarrow> string \<Rightarrow> state \<Rightarrow> error + export" where
  "export_all_stories env format s =
     (if \<not> db_reachable env then Inl DatabaseError
      else let fetched = order_by_created_at_desc env (stories s) in
        if format = ''json'' then Inr (JsonExport (map story_to_json fetched))
        else if format = ''csv'' then Inr (CsvExport fetched)
        else Inl (UnsupportedFormat format))"

section \<open>Story generation\<close>

text \<open>
  \<^verbatim>\<open>str.strip()\<close> and \<^verbatim>\<open>str.lower()\<close> on code points below 256. The white space there
  is \<^verbatim>\<open>\t \n \x0b \x0c \r\<close>, \<^verbatim>\<open>\x1c\<close> to \<^verbatim>\<open>\x1f\<close>, the space, \<^verbatim>\<open>\x85\<close> and \<^verbatim>\<open>\xa0\<close>; the
  upper-case letters are \<^verbatim>\<open>A\<close> to \<^verbatim>\<open>Z\<close>, \<^verbatim>\<open>\xc0\<close> to \<^verbatim>\<open>\xd6\<close> and \<^verbatim>\<open>\xd8\<close> to \<^verbatim>\<open>\xde\<close>, each 32
  below its lower-case letter.
\<close>

definition isspace :: "char \<Rightarrow> bool" where
  "isspace c =
     (of_char c \<in> {9, 10, 11, 12, 13, 28, 29, 30, 31, 32, 133, 160 :: nat})"

definition py_strip :: "string \<Rightarrow> string" where
  "py_strip s = rev (dropWhile isspace (rev (dropWhile isspace s)))"

definition lower_char :: "char \<Rightarrow> char" where
  "lower_char c =
     (let n = of_char c :: nat
      in if (65 \<le> n \<and> n \<le> 90) \<or> (192 \<le> n \<and> n \<le> 214) \<or> (216 \<le> n \<and> n \<le> 222)
         then char_of (n + 32) else c)"

definition py_lower :: "string \<Rightarrow> string" where
  "py_lower s = map lower_char s"

text \<open>The second component of the result: the empty list in direct mode, the
  \<^verbatim>\<open>sources\<close> entry of the chain's result in retrieval mode.\<close>

datatype sources = NoSources | Sources string

type_synonym story_result = "string \<times> sources \<times> string"

text \<open>The body of the inner \<^verbatim>\<open>try\<close> of the direct mode.\<close>

definition direct_generation ::
  "env \<Rightarrow> llm \<Rightarrow> string \<Rightarrow> string \<Rightarrow> string \<Rightarrow> string \<Rightarrow> string \<Rightarrow> state
     \<Rightarrow> (error + story_result) \<times> state" where
  "direct_generation env l user_input selected_style system_prompt mode timestamp s =
     (case invoke env l system_prompt user_input s of
        (Inl e, s1) \<Rightarrow> (Inl e, s1)
      | (Inr story, s1) \<Rightarrow>
          (case add_story env user_input story (Some system_prompt) (Some selected_style)
                  (Some mode) False s1 of
             (Inl e, s2) \<Rightarrow> (Inl e, s2)
           | (Inr story_id, s2) \<Rightarrow>
               (case store_story_to_memory env story timestamp s2 of
                  (Inl e, s3) \<Rightarrow> (Inl e, s3)
                | (Inr path, s3) \<Rightarrow> (Inr (story, NoSources, timestamp), s3))))"

text \<open>The retrieval mode, from \<^verbatim>\<open>if not selected\<close> to the end of the function.\<close>

definition rag_generation ::
  "env \<Rightarrow> llm \<Rightarrow> string \<Rightarrow> string \<Rightarrow> string \<Rightarrow> string \<Rightarrow> string list \<Rightarrow> string \<Rightarrow> state
     \<Rightarrow> (error + story_result) \<times> state" where
  "rag_generation env l user_input selected_style system_prompt mode selected timestamp s =
     (if selected = [] then (Inl NoDocumentsSelected, s)
      else
        (case load_documents env DOCS_PATH (Some selected) s of
           (Inl e, s1) \<Rightarrow> (Inl e, s1)
         | (Inr docs, s1) \<Rightarrow>
             if docs = [] then (Inl NoDocumentsAvailable, s1)
             else
               (case append_to_index env docs s1 of
                  (Inl e, s2) \<Rightarrow> (Inl e, s2)
                | (Inr vectordb, s2) \<Rightarrow>
                    (case run_chain env l vectordb user_input s2 of
                       (Inl e, s3) \<Rightarrow> (Inl e, s3)
                     | (Inr (story, srcs), s3) \<Rightarrow>
                         (case add_story env user_input story (Some system_prompt)
                                 (Some selected_style) (Some mode) False s3 of
                            (Inl e, s4) \<Rightarrow> (Inl e, s4)
                          | (Inr story_id, s4) \<Rightarrow>
                              (case store_story_to_memory env story timestamp s4 of
                                 (Inl e, s5) \<Rightarrow> (Inl e, s5)
                               | (Inr path, s5) \<Rightarrow> (Inr (story, Sources srcs, timestamp), s5)))))))"

definition generate_story ::
  "env \<Rightarrow> string \<Rightarrow> string \<Rightarrow> string \<Rightarrow> string \<Rightarrow> string list \<Rightarrow> state
     \<Rightarrow> (error + story_result) \<times> state" where
  "generate_story env user_input selected_style custom_prompt mode selected s =
     (let timestamp = now_isoformat env in
      case choose_system_prompt custom_prompt selected_style of
        Inl e \<Rightarrow> (Inl e, s)
      | Inr system_prompt \<Rightarrow>
          (case load_llm env system_prompt s of
             (Inl e, s1) \<Rightarrow> (Inl e, s1)
           | (Inr l, s1) \<Rightarrow>
               (let mode' = py_lower (py_strip mode) in
                if mode' = ''direct generation'' then
                  (case direct_generation env l user_input selected_style system_prompt mode'
                          timestamp s1 of
                     (Inl e, s2) \<Rightarrow> (Inl (GenerationFailed e), s2)
                   | (Inr r, s2) \<Rightarrow> (Inr r, s2))
                else rag_generation env l user_input selected_style system_prompt mode'
                       selected timestamp s1)))"

section \<open>A small world for concrete runs\<close>

text \<open>
  A documents directory with \<^verbatim>\<open>a.txt\<close> (\<^verbatim>\<open>hello world\<close>), \<^verbatim>\<open>sub/b.txt\<close>
  (\<^verbatim>\<open>second file\<close>) and \<^verbatim>\<open>notes.md\<close>; the directories that \<^verbatim>\<open>ensure_directories\<close> of
  \<^verbatim>\<open>config.py\<close> creates, and no other, so that a file can be opened for writing when it
  lies in one of them; a model server that lists the configured model; files that are
  their own text (a PDF being one page); a splitter that leaves short documents whole.
  \<open>example_md5\<close> gives the MD5 digests of the contents used here and of the empty
  file, and stands in for the digest on every other content.
\<close>

definition file_a :: dir_entry where
  "file_a = \<lparr>file_name = ''a.txt'', rel_path = ''a.txt'', is_file = True,
              bytes = Some ''hello world''\<rparr>"

definition file_notes :: dir_entry where
  "file_notes = \<lparr>file_name = ''notes.md'', rel_path = ''notes.md'', is_file = True,
                  bytes = Some ''todo''\<rparr>"

definition file_b :: dir_entry where
  "file_b = \<lparr>file_name = ''b.txt'', rel_path = ''sub/b.txt'', is_file = True,
              bytes = Some ''second file''\<rparr>"

definition example_walk :: "dir_entry list" where
  "example_walk = [file_a, file_notes, file_b]"

definition doc_a :: document where
  "doc_a = \<lparr>page_content = ''hello world'', source = ''./docs/a.txt''\<rparr>"

definition doc_b :: document where
  "doc_b = \<lparr>page_content = ''second file'', source = ''./docs/sub/b.txt''\<rparr>"

definition md5_a :: string where
  "md5_a = ''5eb63bbbe01eeed093cb22bb8f5acdc3''"

definition md5_b :: string where
  "md5_b = ''c855014a7bcf8d02b795b7eb0ef7cc0a''"

text \<open>The bytes of a PDF without pages.\<close>

definition blank_pdf_bytes :: string where
  \<open>blank_pdf_bytes =
     ''%PDF-1.4\<newline>'' @
     ''1 0 obj\<newline>'' @
     ''<< /Type /Catalog /Pages 2 0 R >>\<newline>'' @
     ''endobj\<newline>'' @
     ''2 0 obj\<newline>'' @
     ''<< /Type /Pages /Kids [] /Count 0 >>\<newline>'' @
     ''endobj\<newline>'' @
     ''xref\<newline>'' @
     ''0 3\<newline>'' @
     ''0000000000 65535 f \<newline>'' @
     ''0000000009 00000 n \<newline>'' @
     ''0000000058 00000 n \<newline>'' @
     ''trailer\<newline>'' @
     ''<< /Size 3 /Root 1 0 R >>\<newline>'' @
     ''startxref\<newline>'' @
     ''110\<newline>'' @
     ''%%EOF\<newline>''\<close>

definition example_md5 :: "string \<Rightarrow> string" where
  "example_md5 b =
     (if b = ''hello world'' then md5_a
      else if b = ''second file'' then md5_b
      else if b = ''todo'' then ''ea5cb8ff0abf6b4ca0080069daaeada0''
      else if b = blank_pdf_bytes then ''1a5575a1314896d89f282f3d32a0357e''
      else ''d41d8cd98f00b204e9800998ecf8427e'')"

definition example_directories :: "string list" where
  "example_directories = [''.'', ''./docs'', ''./docs/memory_stories'']"

definition example_models :: json where
  "example_models =
     JObject [(''object'', JString ''list''),
              (''data'', JArray [JObject [(''id'', JString ''Qwen3-30B''),
                                          (''object'', JString ''model'')]])]"

definition example_env :: env where
  "example_env =
     \<lparr>walk = (\<lambda>p. if p = ''./docs'' then example_walk else []),
      md5_hexdigest = example_md5,
      decode_text = Some,
      pdf_pages = (\<lambda>b. Some [b]),
      docx2txt_process = Some,
      split_documents = (\<lambda>ds. ds),
      from_documents = (\<lambda>chunks. if chunks = [] then None else Some chunks),
      add_documents = (\<lambda>vectordb chunks. Some (vectordb @ chunks)),
      embedder_loads = True,
      can_write = (\<lambda>p. os_path_dirname p \<in> set example_directories),
      models_endpoint = Reply 200 (Json example_models),
      llm_model = ''Qwen3-30B'',
      llm_invoke = (\<lambda>system_content user_content. Some ''Once upon a time.''),
      chain_call = (\<lambda>vectordb question. Some (''Once upon a time.'', ''./docs/a.txt'')),
      now_isoformat = ''2024-01-01T12:00:00'',
      db_reachable = True,
      db_next_id = (\<lambda>rows. Suc (length rows)),
      db_current_timestamp = ''2024-01-01 12:00:00'',
      order_by_created_at_desc = rev\<rparr>"

text \<open>Nothing persisted yet.\<close>

definition fresh_state :: state where
  "fresh_state =
     \<lparr>hash_db_file = Missing, faiss_index = NoIndex, text_files = Map.empty,
      stories = [], http_log = []\<rparr>"

text \<open>After a file \<^verbatim>\<open>a.txt\<close> with the content \<^verbatim>\<open>hello again\<close> has been fingerprinted:
  the \<^verbatim>\<open>a.txt\<close> of the listing is a changed file.\<close>

definition stale_state :: state where
  "stale_state =
     \<lparr>hash_db_file = Stored [''a.txt'' \<mapsto> ''44997f87b891f89472b7f2bbe4e000c3''],
      faiss_index = NoIndex, text_files = Map.empty, stories = [], http_log = []\<rparr>"

text \<open>After \<^verbatim>\<open>a.txt\<close> has been indexed once.\<close>

definition indexed_state :: state where
  "indexed_state =
     \<lparr>hash_db_file = Stored [''a.txt'' \<mapsto> md5_a], faiss_index = Index [doc_a],
      text_files = Map.empty, stories = [], http_log = []\<rparr>"

text \<open>The example world with a database whose statements fail.\<close>

definition broken_db_env :: env where
  "broken_db_env = example_env\<lparr>db_reachable := False\<rparr>"

text \<open>A documents directory that holds that PDF only; \<^verbatim>\<open>pypdf\<close> finds no page in
  it.\<close>

definition blank_pdf :: dir_entry where
  "blank_pdf = \<lparr>file_name = ''blank.pdf'', rel_path = ''blank.pdf'', is_file = True,
                 bytes = Some blank_pdf_bytes\<rparr>"

definition blank_pdf_env :: env where
  "blank_pdf_env =
     example_env\<lparr>walk := (\<lambda>p. if p = ''./docs'' then [blank_pdf] else []),
                  pdf_pages := (\<lambda>b. Some [])\<rparr>"

section \<open>Verified properties\<close>

subsection \<open>Choice of the system prompt\<close>







subsection \<open>Story memory\<close>

lemma example_can_write:
  "can_write example_env HASH_DB_PATH"
  "can_write example_env INDEX_PATH"
  "can_write example_env ''./docs/memory_stories/story_2024-01-01_12-00-00.txt''"
  "\<not> can_write example_env ''./docs/memory_stories/story_2024/01/01_00-00.txt''"
  by (simp_all add: example_env_def os_path_dirname_def rstrip_slash_def
        example_directories_def HASH_DB_PATH_def INDEX_PATH_def)




subsection \<open>Content fingerprint store\<close>

text \<open>
  Claim C4. \<^verbatim>\<open>load_hash_db\<close> returns the empty mapping, and no error, when there is no
  fingerprint file. Where the persisted mapping can be read and the file can be opened
  for writing, \<^verbatim>\<open>update_hash_db\<close> succeeds and the mapping persisted afterwards holds
  the new hash under every key of the new entries and the previously persisted hash
  (or absence) under every other key.
\<close>

theorem fingerprint_store_contract:
  "(hash_db_file s = Missing \<longrightarrow> load_hash_db s = Inr Map.empty) \<and>
   (load_hash_db s = Inr persisted \<and> can_write env HASH_DB_PATH \<longrightarrow>
      (\<exists>s' merged.
          update_hash_db env new_hashes s = (Inr (), s') \<and>
          load_hash_db s' = Inr merged \<and>
          (\<forall>k v. new_hashes k = Some v \<longrightarrow> merged k = Some v) \<and>
          (\<forall>k. new_hashes k = None \<longrightarrow> merged k = persisted k)))"
  by (auto simp add: load_hash_db_def update_hash_db_def map_add_def
        split: hash_file.splits option.splits)

theorem fingerprint_store_contract_witness:
  "hash_db_file fresh_state = Missing \<and>
   load_hash_db fresh_state = Inr Map.empty \<and>
   can_write example_env HASH_DB_PATH \<and>
   stored_hash indexed_state ''a.txt'' = Some md5_a \<and>
   fst (update_hash_db example_env [''sub/b.txt'' \<mapsto> md5_b] indexed_state) = Inr () \<and>
   stored_hash (snd (update_hash_db example_env [''sub/b.txt'' \<mapsto> md5_b] indexed_state))
     ''sub/b.txt'' = Some md5_b \<and>
   stored_hash (snd (update_hash_db example_env [''sub/b.txt'' \<mapsto> md5_b] indexed_state))
     ''a.txt'' = Some md5_a"
proof -
  let ?new = "[''sub/b.txt'' \<mapsto> md5_b]"
  let ?old = "[''a.txt'' \<mapsto> md5_a]"
  have m: "hash_db_file fresh_state = Missing"
    by (simp add: fresh_state_def)
  have l: "load_hash_db indexed_state = Inr ?old"
    by (simp add: load_hash_db_def indexed_state_def)
  have w: "can_write example_env HASH_DB_PATH"
    by (rule example_can_write)
  from fingerprint_store_contract [of fresh_state] m
  have 1: "load_hash_db fresh_state = Inr Map.empty"
    by blast
  from fingerprint_store_contract [of indexed_state ?old example_env ?new] l w
  obtain s' merged where u: "update_hash_db example_env ?new indexed_state = (Inr (), s')"
    and l': "load_hash_db s' = Inr merged"
    and new: "\<forall>k v. ?new k = Some v \<longrightarrow> merged k = Some v"
    and old: "\<forall>k. ?new k = None \<longrightarrow> merged k = ?old k"
    by blast
  have 2: "merged ''sub/b.txt'' = Some md5_b"
    using new by simp
  have 3: "merged ''a.txt'' = Some md5_a"
    using old by simp
  have 4: "stored_hash indexed_state ''a.txt'' = Some md5_a"
    by (simp add: stored_hash_def l)
  show ?thesis
    using m 1 w 2 3 4 u l' by (simp add: stored_hash_def)
qed

subsection \<open>Vector index\<close>

text \<open>
  Claim C2. \<^verbatim>\<open>append_to_index\<close> with the empty list writes nothing: the state after
  the call is the state before it, so a second call with the empty list gives the same
  result and again leaves everything, the persisted index included, as it was. When
  the embedding model loads and an index is persisted, the result is that index.
\<close>

theorem empty_append_idempotent:
  "snd (append_to_index env [] s) = s \<and>
   append_to_index env [] (snd (append_to_index env [] s)) = append_to_index env [] s \<and>
   faiss_index (snd (append_to_index env [] (snd (append_to_index env [] s)))) = faiss_index s \<and>
   (embedder_loads env \<and> faiss_index s = Index vectordb \<longrightarrow>
      append_to_index env [] s = (Inr vectordb, s))"
  by (simp add: append_to_index_def load_vectordb_def load_local_def)

theorem empty_append_idempotent_witness:
  "embedder_loads example_env \<and> faiss_index indexed_state = Index [doc_a] \<and>
   append_to_index example_env [] indexed_state = (Inr [doc_a], indexed_state) \<and>
   append_to_index example_env [] (snd (append_to_index example_env [] indexed_state))
     = (Inr [doc_a], indexed_state)"
proof -
  have e: "embedder_loads example_env"
    by (simp add: example_env_def)
  have i: "faiss_index indexed_state = Index [doc_a]"
    by (simp add: indexed_state_def)
  note inst = empty_append_idempotent [of example_env indexed_state "[doc_a]"]
  from inst e i have once: "append_to_index example_env [] indexed_state = (Inr [doc_a], indexed_state)"
    by blast
  from inst have "append_to_index example_env [] (snd (append_to_index example_env [] indexed_state))
                   = append_to_index example_env [] indexed_state"
    by blast
  with once e i show ?thesis
    by simp
qed

text \<open>
  Claim C3. With no persisted index, \<^verbatim>\<open>append_to_index\<close> with the empty list raises:
  it returns no handle and creates no index. The exception is the one of
  \<^verbatim>\<open>load_vectordb\<close>: the failure of \<^verbatim>\<open>FAISS.load_local\<close> when the embedding model
  loads, and the failure to build the embedder otherwise.
\<close>

theorem empty_append_without_index:
  "faiss_index s = NoIndex \<longrightarrow>
     append_to_index env [] s
       = (Inl (if embedder_loads env then IndexLoadError else EmbeddingError), s) \<and>
     faiss_index (snd (append_to_index env [] s)) = NoIndex"
  by (simp add: append_to_index_def load_vectordb_def load_local_def)

theorem empty_append_without_index_witness:
  "faiss_index fresh_state = NoIndex \<and>
   append_to_index example_env [] fresh_state = (Inl IndexLoadError, fresh_state)"
proof -
  have n: "faiss_index fresh_state = NoIndex"
    by (simp add: fresh_state_def)
  have e: "embedder_loads example_env"
    by (simp add: example_env_def)
  from empty_append_without_index [of fresh_state example_env] n
  have "append_to_index example_env [] fresh_state
          = (Inl (if embedder_loads example_env then IndexLoadError else EmbeddingError), fresh_state)"
    by blast
  with n e show ?thesis
    by simp
qed


subsection \<open>Export of the story table\<close>

text \<open>
  The claim C8 as it is written fails: \<^verbatim>\<open>export_all_stories\<close> runs the query for the
  stories before it looks at the format, so with a database whose statements fail the
  format \<^verbatim>\<open>xml\<close> raises the exception of the database and no \<^verbatim>\<open>ValueError\<close>.
\<close>

theorem export_query_first_counterexample:
  "''xml'' \<noteq> ''json'' \<and> ''xml'' \<noteq> ''csv'' \<and>
   export_all_stories broken_db_env ''xml'' fresh_state = Inl DatabaseError \<and>
   class_of DatabaseError \<noteq> ValueError"
  by (simp add: export_all_stories_def broken_db_env_def example_env_def)

text \<open>
  Claim C8, amended. \<^verbatim>\<open>export_all_stories\<close> first runs the query for all stories. When
  the query fails, the call raises the exception of the database, whatever the format.
  When the query succeeds, the call raises \<^verbatim>\<open>ValueError("Unsupported format: ...")\<close> for
  every format other than \<^verbatim>\<open>"json"\<close> and \<^verbatim>\<open>"csv"\<close>, and returns the export for these two.
  For these two formats it never raises a \<^verbatim>\<open>ValueError\<close>. The export is the list
  of the rows as the query returned them, for \<^verbatim>\<open>"json"\<close> as dictionaries with
  \<^verbatim>\<open>memory_added\<close> turned into a truth value.
\<close>

theorem export_format_error:
  "(\<not> db_reachable env \<longrightarrow> export_all_stories env format s = Inl DatabaseError) \<and>
   (db_reachable env \<and> format \<noteq> ''json'' \<and> format \<noteq> ''csv'' \<longrightarrow>
      export_all_stories env format s = Inl (UnsupportedFormat format) \<and>
      class_of (UnsupportedFormat format) = ValueError) \<and>
   (format = ''json'' \<or> format = ''csv'' \<longrightarrow>
      (\<forall>e. export_all_stories env format s = Inl e \<longrightarrow> class_of e \<noteq> ValueError) \<and>
      (db_reachable env \<longrightarrow> (\<exists>r. export_all_stories env format s = Inr r))) \<and>
   (db_reachable env \<longrightarrow>
      export_all_stories env ''json'' s
        = Inr (JsonExport (map story_to_json (order_by_created_at_desc env (stories s)))) \<and>
      export_all_stories env ''csv'' s
        = Inr (CsvExport (order_by_created_at_desc env (stories s))))"
  by (auto simp add: export_all_stories_def Let_def split: if_splits)

theorem export_format_error_witness:
  "db_reachable example_env \<and> ''xml'' \<noteq> ''json'' \<and> ''xml'' \<noteq> ''csv'' \<and>
   export_all_stories example_env ''xml'' fresh_state = Inl (UnsupportedFormat ''xml'') \<and>
   export_all_stories example_env ''csv'' fresh_state \<noteq> Inl (UnsupportedFormat ''csv'') \<and>
   export_all_stories example_env ''json'' fresh_state \<noteq> Inl (UnsupportedFormat ''json'') \<and>
   \<not> db_reachable broken_db_env \<and>
   export_all_stories broken_db_env ''csv'' fresh_state = Inl DatabaseError"
proof -
  have d: "db_reachable example_env"
    by (simp add: example_env_def)
  have n: "\<not> db_reachable broken_db_env"
    by (simp add: broken_db_env_def)
  have x: "''xml'' \<noteq> ''json''" "''xml'' \<noteq> ''csv''"
    by simp_all
  from export_format_error [of example_env "''xml''" fresh_state] d x
  have 1: "export_all_stories example_env ''xml'' fresh_state = Inl (UnsupportedFormat ''xml'')"
    by blast
  from export_format_error [of example_env "''csv''" fresh_state]
  have "\<forall>e. export_all_stories example_env ''csv'' fresh_state = Inl e \<longrightarrow> class_of e \<noteq> ValueError"
    by blast
  then have 2: "export_all_stories example_env ''csv'' fresh_state \<noteq> Inl (UnsupportedFormat ''csv'')"
    by fastforce
  from export_format_error [of example_env "''json''" fresh_state]
  have "\<forall>e. export_all_stories example_env ''json'' fresh_state = Inl e \<longrightarrow> class_of e \<noteq> ValueError"
    by blast
  then have 3: "export_all_stories example_env ''json'' fresh_state \<noteq> Inl (UnsupportedFormat ''json'')"
    by fastforce
  from export_format_error [of broken_db_env "''csv''" fresh_state] n
  have 4: "export_all_stories broken_db_env ''csv'' fresh_state = Inl DatabaseError"
    by blast
  from d x 1 2 3 n 4 show ?thesis
    by blast
qed

subsection \<open>Document loader\<close>

lemma walk_files_append:
  "walk_files env path sel hdb (xs @ ys) acc =
     (case walk_files env path sel hdb xs acc of
        Inl e \<Rightarrow> Inl e
      | Inr acc' \<Rightarrow> walk_files env path sel hdb ys acc')"
  by (induction xs arbitrary: acc) (simp_all split: sum.splits)

text \<open>One file either leaves the two local variables alone or appends documents and
  stages a hash under its own relative path.\<close>

lemma load_file_result:
  assumes "load_file env path sel hdb f (docs, hashes) = Inr (docs', hashes')"
  shows "(docs' = docs \<and> hashes' = hashes) \<or>
         (\<exists>ds h. docs' = docs @ ds \<and> hashes' = hashes(rel_path f \<mapsto> h))"
  using assms
  by (auto simp add: load_file_def Let_def split: if_splits sum.splits)

text \<open>The loop only appends to \<^verbatim>\<open>docs\<close>, and touches \<^verbatim>\<open>hashes\<close> only at the relative
  paths of the files it visits.\<close>

lemma walk_files_keeps:
  assumes "walk_files env path sel hdb fs (docs, hashes) = Inr (docs', hashes')"
  shows "prefix docs docs' \<and> (\<forall>k. k \<notin> rel_path ` set fs \<longrightarrow> hashes' k = hashes k)"
  using assms
proof (induction fs arbitrary: docs hashes)
  case Nil
  then show ?case by simp
next
  case (Cons f fs)
  from Cons.prems obtain docs1 hashes1
    where step: "load_file env path sel hdb f (docs, hashes) = Inr (docs1, hashes1)"
      and rest: "walk_files env path sel hdb fs (docs1, hashes1) = Inr (docs', hashes')"
    by (auto split: sum.splits)
  from Cons.IH [OF rest]
  have p: "prefix docs1 docs'" and k: "\<forall>k. k \<notin> rel_path ` set fs \<longrightarrow> hashes' k = hashes1 k"
    by blast+
  from load_file_result [OF step]
  have "prefix docs docs1 \<and> (\<forall>k. k \<noteq> rel_path f \<longrightarrow> hashes1 k = hashes k)"
    by auto
  with p k show ?case
    by (auto intro: prefix_order.trans)
qed

lemma load_file_unchanged_hash:
  assumes "bytes f = Some b" and "hdb (rel_path f) = Some (md5_hexdigest env b)"
  shows "load_file env path sel hdb f acc = Inr acc"
  using assms by (simp add: load_file_def hash_file_def read_file_def Let_def)

text \<open>What the loaders return: documents tagged with the path, exactly one for a text
  and for a docx file, one for each page of a PDF.\<close>

lemma endswith_last:
  assumes "endswith s suf" and "suf \<noteq> []"
  shows "last s = last suf"
  using assms by (auto simp add: endswith_def suffix_def)

lemma extension_exclusive:
  "endswith n ''.txt'' \<Longrightarrow> \<not> endswith n ''.pdf''"
  "endswith n ''.docx'' \<Longrightarrow> \<not> endswith n ''.pdf''"
  "endswith n ''.docx'' \<Longrightarrow> \<not> endswith n ''.txt''"
  by (auto dest!: endswith_last)

lemma run_loader_result:
  assumes "run_loader env n p f = Inr ds"
  shows "(\<forall>d \<in> set ds. source d = p) \<and>
         (endswith n ''.txt'' \<or> endswith n ''.docx'' \<longrightarrow> length ds = 1) \<and>
         (endswith n ''.pdf'' \<longrightarrow>
            (\<exists>b pages. bytes f = Some b \<and> pdf_pages env b = Some pages \<and>
                       length ds = length pages))"
  using assms
  by (auto simp add: run_loader_def TextLoader_def PyPDFLoader_def Docx2txtLoader_def
        read_file_def extension_exclusive split: if_splits sum.splits option.splits)

text \<open>A file that passes every test of the loop body and whose hash is not the stored
  one is read, loaded and staged.\<close>

lemma load_file_changed:
  assumes "endswith (file_name f) ''.txt'' \<or> endswith (file_name f) ''.pdf''
             \<or> endswith (file_name f) ''.docx''"
      and "\<not> not_selected sel (rel_path f)"
      and "is_file f"
      and "\<forall>b. bytes f = Some b \<longrightarrow> hdb (rel_path f) \<noteq> Some (md5_hexdigest env b)"
      and "load_file env path sel hdb f (docs, hashes) = Inr (docs', hashes')"
  shows "\<exists>b ds. bytes f = Some b \<and>
           run_loader env (file_name f) (os_path_join path (rel_path f)) f = Inr ds \<and>
           docs' = docs @ ds \<and> hashes' = hashes(rel_path f \<mapsto> md5_hexdigest env b)"
  using assms
  by (auto simp add: load_file_def hash_file_def read_file_def Let_def
        split: if_splits sum.splits option.splits)

lemma update_hash_db_stored:
  assumes "update_hash_db env new s = (Inr u, s')" and "new k = Some v"
  shows "stored_hash s' k = Some v"
  using assms
  by (auto simp add: update_hash_db_def stored_hash_def load_hash_db_def
        split: sum.splits if_splits)

text \<open>The same for a whole run of \<^verbatim>\<open>load_documents\<close> that returns: the documents of the
  file are part of the result, and its hash is in the fingerprint store afterwards.\<close>

lemma changed_file_loaded:
  assumes listing: "walk env path = before @ f # after"
      and once: "rel_path f \<notin> rel_path ` set after"
      and supported: "endswith (file_name f) ''.txt'' \<or> endswith (file_name f) ''.pdf''
                        \<or> endswith (file_name f) ''.docx''"
      and selected: "\<not> not_selected sel (rel_path f)"
      and regular: "is_file f"
      and hdb: "load_hash_db s = Inr hash_db"
      and changed: "\<forall>b. bytes f = Some b \<longrightarrow> hash_db (rel_path f) \<noteq> Some (md5_hexdigest env b)"
      and returns: "load_documents env path sel s = (Inr docs, s')"
  shows "\<exists>b ds. bytes f = Some b \<and>
           run_loader env (file_name f) (os_path_join path (rel_path f)) f = Inr ds \<and>
           sublist ds docs \<and>
           stored_hash s' (rel_path f) = Some (md5_hexdigest env b)"
proof -
  from returns hdb obtain hashes u
    where loop: "walk_files env path sel hash_db (before @ f # after) ([], Map.empty)
                   = Inr (docs, hashes)"
      and upd: "update_hash_db env hashes s = (Inr u, s')"
    by (auto simp add: load_documents_def listing split: sum.splits prod.splits)
  from loop obtain d1 h1 d2 h2
    where "walk_files env path sel hash_db before ([], Map.empty) = Inr (d1, h1)"
      and step: "load_file env path sel hash_db f (d1, h1) = Inr (d2, h2)"
      and rest: "walk_files env path sel hash_db after (d2, h2) = Inr (docs, hashes)"
    by (auto simp add: walk_files_append split: sum.splits)
  from load_file_changed [OF supported selected regular changed step]
  obtain b ds where b: "bytes f = Some b"
    and ds: "run_loader env (file_name f) (os_path_join path (rel_path f)) f = Inr ds"
    and d2: "d2 = d1 @ ds" and h2: "h2 = h1(rel_path f \<mapsto> md5_hexdigest env b)"
    by blast
  from walk_files_keeps [OF rest] once
  have pre: "prefix d2 docs" and staged: "hashes (rel_path f) = h2 (rel_path f)"
    by blast+
  from pre d2 obtain zs where "docs = d1 @ ds @ zs"
    by (auto simp add: prefix_def)
  then have part: "sublist ds docs"
    by simp
  from staged h2 have "hashes (rel_path f) = Some (md5_hexdigest env b)"
    by simp
  with upd have "stored_hash s' (rel_path f) = Some (md5_hexdigest env b)"
    by (rule update_hash_db_stored)
  with b ds part show ?thesis
    by blast
qed

text \<open>The loop and the store do not look at the directory listing of the environment.\<close>

lemma hash_file_env_walk:
  "hash_file (env\<lparr>walk := w\<rparr>) p f = hash_file env p f"
  by (simp add: hash_file_def split: sum.splits)

lemma run_loader_env_walk:
  "run_loader (env\<lparr>walk := w\<rparr>) n p f = run_loader env n p f"
  by (simp add: run_loader_def TextLoader_def PyPDFLoader_def Docx2txtLoader_def
        split: sum.splits)

lemma load_file_env_walk:
  "load_file (env\<lparr>walk := w\<rparr>) path sel hdb f acc = load_file env path sel hdb f acc"
  unfolding load_file_def hash_file_env_walk run_loader_env_walk by (rule refl)

lemma walk_files_env_walk:
  "walk_files (env\<lparr>walk := w\<rparr>) path sel hdb fs acc = walk_files env path sel hdb fs acc"
  by (induction fs arbitrary: acc) (simp_all add: load_file_env_walk split: sum.splits)

lemma update_hash_db_env_walk:
  "update_hash_db (env\<lparr>walk := w\<rparr>) new s = update_hash_db env new s"
  by (simp add: update_hash_db_def split: sum.splits)

text \<open>Runs of the loader in the example world.\<close>

lemmas example_loader_defs =
  load_documents_def load_hash_db_def update_hash_db_def load_file_def not_selected_def
  hash_file_def read_file_def run_loader_def TextLoader_def PyPDFLoader_def
  Docx2txtLoader_def endswith_def suffix_to_prefix os_path_join_def os_path_dirname_def
  rstrip_slash_def example_directories_def HASH_DB_PATH_def example_env_def
  example_walk_def example_md5_def file_a_def file_notes_def file_b_def doc_a_def
  doc_b_def fresh_state_def indexed_state_def stale_state_def

lemma example_first_run:
  "load_documents example_env ''./docs'' None fresh_state =
     (Inr [doc_a, doc_b],
      fresh_state\<lparr>hash_db_file := Stored [''a.txt'' \<mapsto> md5_a, ''sub/b.txt'' \<mapsto> md5_b]\<rparr>)"
  by (simp add: example_loader_defs)

lemma example_selected_run:
  "load_documents example_env ''./docs'' (Some [''sub/b.txt'']) fresh_state =
     (Inr [doc_b], fresh_state\<lparr>hash_db_file := Stored [''sub/b.txt'' \<mapsto> md5_b]\<rparr>)"
  by (simp add: example_loader_defs)

lemma example_second_run:
  "load_documents example_env ''./docs'' None indexed_state =
     (Inr [doc_b],
      indexed_state\<lparr>hash_db_file := Stored [''a.txt'' \<mapsto> md5_a, ''sub/b.txt'' \<mapsto> md5_b]\<rparr>)"
  by (simp add: example_loader_defs)

lemma example_changed_run:
  "load_documents example_env ''./docs'' None stale_state =
     (Inr [doc_a, doc_b],
      stale_state\<lparr>hash_db_file := Stored [''a.txt'' \<mapsto> md5_a, ''sub/b.txt'' \<mapsto> md5_b]\<rparr>)"
  by (simp add: example_loader_defs md5_a_def)

lemma example_blank_pdf_run:
  "load_documents blank_pdf_env ''./docs'' None fresh_state =
     (Inr [], fresh_state\<lparr>hash_db_file :=
                Stored [''blank.pdf'' \<mapsto> ''1a5575a1314896d89f282f3d32a0357e'']\<rparr>)"
  by (simp add: example_loader_defs blank_pdf_env_def blank_pdf_def blank_pdf_bytes_def)

text \<open>
  Claim C9. An empty selection list is no selection. With \<^verbatim>\<open>selected_files = []\<close> the
  filter excludes no file, every file is treated as with \<^verbatim>\<open>selected_files = None\<close>, and
  the whole run of \<^verbatim>\<open>load_documents\<close> (documents returned, fingerprints written,
  exceptions) is the run without a selection. And every supported, changed file is
  loaded: when the run with the empty selection returns, then for every regular file of
  the listing with a supported extension whose content hash is not the stored one, the
  loader was run on it, its documents (tagged with its path, exactly one for a text or
  docx file) are part of the list returned, and the fingerprint store holds its new
  hash.
\<close>

theorem empty_selection_is_no_selection:
  "not_selected (Some []) rp = False \<and>
   load_file env path (Some []) hash_db f acc = load_file env path None hash_db f acc \<and>
   load_documents env path (Some []) s = load_documents env path None s \<and>
   (walk env path = before @ g # after \<and> rel_path g \<notin> rel_path ` set after \<and>
    (endswith (file_name g) ''.txt'' \<or> endswith (file_name g) ''.pdf''
       \<or> endswith (file_name g) ''.docx'') \<and>
    is_file g \<and> bytes g = Some b \<and>
    load_hash_db s = Inr persisted \<and> persisted (rel_path g) \<noteq> Some (md5_hexdigest env b) \<and>
    load_documents env path (Some []) s = (Inr docs, s')
    \<longrightarrow> (\<exists>ds. run_loader env (file_name g) (os_path_join path (rel_path g)) g = Inr ds \<and>
            (\<forall>d \<in> set ds. source d = os_path_join path (rel_path g)) \<and>
            (endswith (file_name g) ''.txt'' \<or> endswith (file_name g) ''.docx''
               \<longrightarrow> length ds = 1) \<and>
            sublist ds docs \<and>
            stored_hash s' (rel_path g) = Some (md5_hexdigest env b)))"
proof -
  have none: "not_selected (Some []) k = False" for k
    by (simp add: not_selected_def)
  have body: "load_file env path (Some []) hdb h a = load_file env path None hdb h a" for hdb h a
    by (simp add: load_file_def not_selected_def)
  have loop: "walk_files env path (Some []) hdb fs a = walk_files env path None hdb fs a"
    for hdb fs a
    by (induction fs arbitrary: a) (simp_all add: body split: sum.splits)
  have run: "load_documents env path (Some []) s = load_documents env path None s"
    unfolding load_documents_def loop by (rule refl)
  have loaded: "\<exists>ds. run_loader env (file_name g) (os_path_join path (rel_path g)) g = Inr ds \<and>
            (\<forall>d \<in> set ds. source d = os_path_join path (rel_path g)) \<and>
            (endswith (file_name g) ''.txt'' \<or> endswith (file_name g) ''.docx''
               \<longrightarrow> length ds = 1) \<and>
            sublist ds docs \<and>
            stored_hash s' (rel_path g) = Some (md5_hexdigest env b)"
    if listing: "walk env path = before @ g # after"
      and once: "rel_path g \<notin> rel_path ` set after"
      and supported: "endswith (file_name g) ''.txt'' \<or> endswith (file_name g) ''.pdf''
                        \<or> endswith (file_name g) ''.docx''"
      and regular: "is_file g" and readable: "bytes g = Some b"
      and hdb: "load_hash_db s = Inr persisted"
      and changed: "persisted (rel_path g) \<noteq> Some (md5_hexdigest env b)"
      and returns: "load_documents env path (Some []) s = (Inr docs, s')"
  proof -
    have sel: "\<not> not_selected (Some []) (rel_path g)"
      by (simp add: none)
    have ch: "\<forall>c. bytes g = Some c \<longrightarrow> persisted (rel_path g) \<noteq> Some (md5_hexdigest env c)"
      using readable changed by simp
    from changed_file_loaded [OF listing once supported sel regular hdb ch returns] readable
    obtain ds where ds: "run_loader env (file_name g) (os_path_join path (rel_path g)) g = Inr ds"
      and part: "sublist ds docs"
      and fp: "stored_hash s' (rel_path g) = Some (md5_hexdigest env b)"
      by auto
    from run_loader_result [OF ds] part fp ds show ?thesis
      by blast
  qed
  from none body run loaded show ?thesis
    by blast
qed

theorem empty_selection_is_no_selection_witness:
  "walk example_env ''./docs'' = [] @ file_a # [file_notes, file_b] \<and>
   rel_path file_a \<notin> rel_path ` set [file_notes, file_b] \<and>
   endswith (file_name file_a) ''.txt'' \<and> is_file file_a \<and>
   bytes file_a = Some ''hello world'' \<and>
   load_hash_db stale_state = Inr [''a.txt'' \<mapsto> ''44997f87b891f89472b7f2bbe4e000c3''] \<and>
   stored_hash stale_state (rel_path file_a) \<noteq> Some (md5_hexdigest example_env ''hello world'') \<and>
   load_documents example_env ''./docs'' (Some []) stale_state =
     (Inr [doc_a, doc_b],
      stale_state\<lparr>hash_db_file := Stored [''a.txt'' \<mapsto> md5_a, ''sub/b.txt'' \<mapsto> md5_b]\<rparr>) \<and>
   run_loader example_env (file_name file_a) (os_path_join ''./docs'' (rel_path file_a)) file_a
     = Inr [doc_a] \<and>
   sublist [doc_a] [doc_a, doc_b] \<and>
   stored_hash (stale_state\<lparr>hash_db_file := Stored [''a.txt'' \<mapsto> md5_a, ''sub/b.txt'' \<mapsto> md5_b]\<rparr>)
     (rel_path file_a) = Some md5_a"
proof -
  let ?old = "[''a.txt'' \<mapsto> ''44997f87b891f89472b7f2bbe4e000c3'']"
  let ?s' = "stale_state\<lparr>hash_db_file := Stored [''a.txt'' \<mapsto> md5_a, ''sub/b.txt'' \<mapsto> md5_b]\<rparr>"
  note inst = empty_selection_is_no_selection [of _ example_env "''./docs''" _ _ _ stale_state
      "[]" file_a "[file_notes, file_b]" "''hello world''" ?old "[doc_a, doc_b]" ?s']
  have l: "walk example_env ''./docs'' = [] @ file_a # [file_notes, file_b]"
    by (simp add: example_env_def example_walk_def)
  have o: "rel_path file_a \<notin> rel_path ` set [file_notes, file_b]"
    by (simp add: file_a_def file_notes_def file_b_def)
  have x: "endswith (file_name file_a) ''.txt''"
    by (simp add: file_a_def endswith_def suffix_to_prefix)
  have i: "is_file file_a" and r: "bytes file_a = Some ''hello world''"
    by (simp_all add: file_a_def)
  have h: "load_hash_db stale_state = Inr ?old"
    by (simp add: load_hash_db_def stale_state_def)
  have c: "?old (rel_path file_a) \<noteq> Some (md5_hexdigest example_env ''hello world'')"
    by (simp add: file_a_def example_env_def example_md5_def md5_a_def)
  then have c': "stored_hash stale_state (rel_path file_a)
                   \<noteq> Some (md5_hexdigest example_env ''hello world'')"
    by (simp add: stored_hash_def h)
  from inst have "load_documents example_env ''./docs'' (Some []) stale_state
                    = load_documents example_env ''./docs'' None stale_state"
    by blast
  then have run: "load_documents example_env ''./docs'' (Some []) stale_state = (Inr [doc_a, doc_b], ?s')"
    by (simp only: example_changed_run)
  from inst l o x i r h c run
  obtain ds where ds: "run_loader example_env (file_name file_a)
                         (os_path_join ''./docs'' (rel_path file_a)) file_a = Inr ds"
    and one: "length ds = 1"
    and part: "sublist ds [doc_a, doc_b]"
    and fp: "stored_hash ?s' (rel_path file_a) = Some (md5_hexdigest example_env ''hello world'')"
    by blast
  from ds have ds': "ds = [doc_a]"
    by (simp add: run_loader_def TextLoader_def read_file_def endswith_def suffix_to_prefix
          os_path_join_def example_env_def file_a_def doc_a_def)
  from fp have fp': "stored_hash ?s' (rel_path file_a) = Some md5_a"
    by (simp add: example_env_def example_md5_def)
  from l o x i r h c' run ds part fp' ds' show ?thesis
    by simp
qed


text \<open>
  Claim C5. Let a file of the listing be readable and let the fingerprint store hold,
  under its relative path, the hash of its current content. Then the loop body for that
  file leaves \<^verbatim>\<open>docs\<close> and \<^verbatim>\<open>hashes\<close> as they were; the whole run of \<^verbatim>\<open>load_documents\<close>
  (the documents returned and the fingerprint update) is the run on the listing without
  that file; and the batch of staged hashes has no entry under its relative path (no
  other file of the listing having that relative path).
\<close>

theorem unchanged_file_skipped:
  assumes listing: "walk env path = before @ f # after"
      and readable: "bytes f = Some b"
      and same: "stored_hash s (rel_path f) = Some (md5_hexdigest env b)"
  shows "(\<forall>hash_db acc. load_hash_db s = Inr hash_db \<longrightarrow>
            load_file env path selected_files hash_db f acc = Inr acc) \<and>
         load_documents env path selected_files s =
           load_documents (env\<lparr>walk := (walk env)(path := before @ after)\<rparr>)
             path selected_files s \<and>
         (\<forall>hash_db docs hashes.
            load_hash_db s = Inr hash_db \<and> rel_path f \<notin> rel_path ` set (before @ after) \<and>
            walk_files env path selected_files hash_db (walk env path) ([], Map.empty)
              = Inr (docs, hashes) \<longrightarrow> hashes (rel_path f) = None)"
proof -
  from same obtain hdb where hdb: "load_hash_db s = Inr hdb"
    and stored: "hdb (rel_path f) = Some (md5_hexdigest env b)"
    by (auto simp add: stored_hash_def split: sum.splits)
  have skip: "load_file env path selected_files hdb f acc = Inr acc" for acc
    using readable stored by (rule load_file_unchanged_hash)
  have without: "walk_files env path selected_files hdb (before @ f # after) acc
                   = walk_files env path selected_files hdb (before @ after) acc" for acc
    by (simp add: walk_files_append skip split: sum.splits)
  have 1: "\<forall>hash_db acc. load_hash_db s = Inr hash_db \<longrightarrow>
            load_file env path selected_files hash_db f acc = Inr acc"
    using hdb skip by simp
  have 2: "load_documents env path selected_files s =
           load_documents (env\<lparr>walk := (walk env)(path := before @ after)\<rparr>)
             path selected_files s"
    unfolding load_documents_def walk_files_env_walk update_hash_db_env_walk
    by (simp add: hdb listing without)
  have 3: "hashes (rel_path f) = None"
    if fresh: "rel_path f \<notin> rel_path ` set (before @ after)"
      and run: "walk_files env path selected_files hdb (walk env path) ([], Map.empty)
                  = Inr (docs, hashes)"
    for docs hashes
  proof -
    from run
    have "walk_files env path selected_files hdb (before @ after) ([], Map.empty)
            = Inr (docs, hashes)"
      by (simp add: listing without)
    from walk_files_keeps [OF this] fresh show ?thesis
      by simp
  qed
  from 1 2 3 hdb show ?thesis
    by auto
qed

theorem unchanged_file_skipped_witness:
  "walk example_env ''./docs'' = [] @ file_a # [file_notes, file_b] \<and>
   bytes file_a = Some ''hello world'' \<and>
   stored_hash indexed_state (rel_path file_a) = Some (md5_hexdigest example_env ''hello world'') \<and>
   load_file example_env ''./docs'' None [''a.txt'' \<mapsto> md5_a] file_a ([doc_b], Map.empty)
     = Inr ([doc_b], Map.empty) \<and>
   load_documents example_env ''./docs'' None indexed_state =
     load_documents (example_env\<lparr>walk := (walk example_env)(''./docs'' := [file_notes, file_b])\<rparr>)
       ''./docs'' None indexed_state \<and>
   fst (load_documents example_env ''./docs'' None indexed_state) = Inr [doc_b]"
proof -
  have l: "walk example_env ''./docs'' = [] @ file_a # [file_notes, file_b]"
    by (simp add: example_env_def example_walk_def)
  have r: "bytes file_a = Some ''hello world''"
    by (simp add: file_a_def)
  have h: "stored_hash indexed_state (rel_path file_a)
             = Some (md5_hexdigest example_env ''hello world'')"
    by (simp add: stored_hash_def load_hash_db_def indexed_state_def file_a_def
          example_env_def example_md5_def)
  have d: "load_hash_db indexed_state = Inr [''a.txt'' \<mapsto> md5_a]"
    by (simp add: load_hash_db_def indexed_state_def)
  note inst = unchanged_file_skipped [OF l r h, of None]
  from inst d
  have 1: "load_file example_env ''./docs'' None [''a.txt'' \<mapsto> md5_a] file_a ([doc_b], Map.empty)
             = Inr ([doc_b], Map.empty)"
    by blast
  from inst
  have 2: "load_documents example_env ''./docs'' None indexed_state =
     load_documents (example_env\<lparr>walk := (walk example_env)(''./docs'' := [file_notes, file_b])\<rparr>)
       ''./docs'' None indexed_state"
    by simp
  have 3: "fst (load_documents example_env ''./docs'' None indexed_state) = Inr [doc_b]"
    by (simp add: example_second_run)
  from l r h 1 2 3 show ?thesis
    by blast
qed


text \<open>
  The claim C6 as it is written fails in two ways. A file that the selection leaves
  out is not loaded: with \<^verbatim>\<open>selected_files = ["sub/b.txt"]\<close> and no fingerprint file,
  \<^verbatim>\<open>a.txt\<close> is a supported file without a fingerprint entry, yet the only document
  returned is the one of \<^verbatim>\<open>sub/b.txt\<close> and the fingerprint store has no entry for
  \<^verbatim>\<open>a.txt\<close> afterwards. And \<^verbatim>\<open>PyPDFLoader\<close> returns one document for each page: a
  PDF without pages is loaded and fingerprinted, and no document is returned for it.
\<close>

theorem unselected_new_file_counterexample:
  "file_a \<in> set (walk example_env ''./docs'') \<and>
   endswith (file_name file_a) ''.txt'' \<and>
   stored_hash fresh_state (rel_path file_a) = None \<and>
   fst (load_documents example_env ''./docs'' (Some [''sub/b.txt'']) fresh_state) = Inr [doc_b] \<and>
   source doc_b \<noteq> os_path_join ''./docs'' (rel_path file_a) \<and>
   stored_hash (snd (load_documents example_env ''./docs'' (Some [''sub/b.txt'']) fresh_state))
     (rel_path file_a) = None \<and>
   blank_pdf \<in> set (walk blank_pdf_env ''./docs'') \<and>
   endswith (file_name blank_pdf) ''.pdf'' \<and>
   stored_hash fresh_state (rel_path blank_pdf) = None \<and>
   fst (load_documents blank_pdf_env ''./docs'' None fresh_state) = Inr [] \<and>
   stored_hash (snd (load_documents blank_pdf_env ''./docs'' None fresh_state))
     (rel_path blank_pdf) = Some ''1a5575a1314896d89f282f3d32a0357e''"
  by (simp add: example_selected_run example_blank_pdf_run)
     (simp add: example_env_def blank_pdf_env_def example_walk_def file_a_def blank_pdf_def
        doc_b_def endswith_def suffix_to_prefix stored_hash_def load_hash_db_def
        fresh_state_def os_path_join_def)

text \<open>
  Claim C6, amended. For every supported regular file (extension \<^verbatim>\<open>.txt\<close>, \<^verbatim>\<open>.pdf\<close> or
  \<^verbatim>\<open>.docx\<close>) with no existing fingerprint entry that passes the selection filter (no
  selection, an empty one, or one that holds its relative path) and, if it is a PDF, has
  at least one page: when \<^verbatim>\<open>load_documents\<close> returns, the list returned holds at least
  one document tagged with the file's path \<^verbatim>\<open>os.path.join(path, rel_path)\<close> as source (all
  the documents that the loader of its format returned for it, in their order), and the
  fingerprint store afterwards holds the hash of the file's content under its relative
  path. (The listing names the relative path of the file once.)
\<close>

theorem new_file_loaded:
  assumes listing: "walk env path = before @ f # after"
      and once: "rel_path f \<notin> rel_path ` set after"
      and supported: "endswith (file_name f) ''.txt'' \<or> endswith (file_name f) ''.pdf''
                        \<or> endswith (file_name f) ''.docx''"
      and selected: "\<not> not_selected selected_files (rel_path f)"
      and regular: "is_file f"
      and pages: "endswith (file_name f) ''.pdf'' \<longrightarrow>
                    (\<forall>b. bytes f = Some b \<longrightarrow> pdf_pages env b \<noteq> Some [])"
      and unseen: "load_hash_db s = Inr hash_db" "hash_db (rel_path f) = None"
      and returns: "load_documents env path selected_files s = (Inr docs, s')"
  shows "\<exists>b ds. bytes f = Some b \<and>
           run_loader env (file_name f) (os_path_join path (rel_path f)) f = Inr ds \<and>
           ds \<noteq> [] \<and> (\<forall>d \<in> set ds. source d = os_path_join path (rel_path f)) \<and>
           sublist ds docs \<and>
           (\<exists>d \<in> set docs. source d = os_path_join path (rel_path f)) \<and>
           stored_hash s' (rel_path f) = Some (md5_hexdigest env b)"
proof -
  have changed: "\<forall>b. bytes f = Some b \<longrightarrow> hash_db (rel_path f) \<noteq> Some (md5_hexdigest env b)"
    using unseen(2) by simp
  from changed_file_loaded [OF listing once supported selected regular unseen(1) changed returns]
  obtain b ds where b: "bytes f = Some b"
    and ds: "run_loader env (file_name f) (os_path_join path (rel_path f)) f = Inr ds"
    and part: "sublist ds docs"
    and fp: "stored_hash s' (rel_path f) = Some (md5_hexdigest env b)"
    by blast
  note res = run_loader_result [OF ds]
  from res have tagged: "\<forall>d \<in> set ds. source d = os_path_join path (rel_path f)"
    by blast
  have some: "ds \<noteq> []"
  proof (cases "endswith (file_name f) ''.pdf''")
    case True
    with res obtain c ps where "bytes f = Some c" "pdf_pages env c = Some ps"
      "length ds = length ps"
      by blast
    with pages True show ?thesis
      by auto
  next
    case False
    with supported res have "length ds = 1"
      by blast
    then show ?thesis
      by auto
  qed
  then obtain d where d: "d \<in> set ds"
    by (cases ds) auto
  from part have "set ds \<subseteq> set docs"
    by (auto simp add: sublist_def)
  with d tagged have "\<exists>d \<in> set docs. source d = os_path_join path (rel_path f)"
    by blast
  with b ds some tagged part fp show ?thesis
    by blast
qed

theorem new_file_loaded_witness:
  "walk example_env ''./docs'' = [] @ file_a # [file_notes, file_b] \<and>
   rel_path file_a \<notin> rel_path ` set [file_notes, file_b] \<and>
   endswith (file_name file_a) ''.txt'' \<and>
   \<not> endswith (file_name file_a) ''.pdf'' \<and>
   \<not> not_selected None (rel_path file_a) \<and>
   is_file file_a \<and>
   load_hash_db fresh_state = Inr Map.empty \<and>
   fst (load_documents example_env ''./docs'' None fresh_state) = Inr [doc_a, doc_b] \<and>
   sublist [doc_a] [doc_a, doc_b] \<and>
   source doc_a = os_path_join ''./docs'' (rel_path file_a) \<and>
   stored_hash (snd (load_documents example_env ''./docs'' None fresh_state)) ''a.txt'' = Some md5_a"
proof -
  let ?s' = "fresh_state\<lparr>hash_db_file := Stored [''a.txt'' \<mapsto> md5_a, ''sub/b.txt'' \<mapsto> md5_b]\<rparr>"
  have l: "walk example_env ''./docs'' = [] @ file_a # [file_notes, file_b]"
    by (simp add: example_env_def example_walk_def)
  have o: "rel_path file_a \<notin> rel_path ` set [file_notes, file_b]"
    by (simp add: file_a_def file_notes_def file_b_def)
  have x: "endswith (file_name file_a) ''.txt''"
    by (simp add: file_a_def endswith_def suffix_to_prefix)
  then have x': "endswith (file_name file_a) ''.txt'' \<or> endswith (file_name file_a) ''.pdf''
                   \<or> endswith (file_name file_a) ''.docx''"
    by simp
  have np: "\<not> endswith (file_name file_a) ''.pdf''"
    by (simp add: file_a_def endswith_def suffix_to_prefix)
  then have pg: "endswith (file_name file_a) ''.pdf'' \<longrightarrow>
                   (\<forall>b. bytes file_a = Some b \<longrightarrow> pdf_pages example_env b \<noteq> Some [])"
    by simp
  have n: "\<not> not_selected None (rel_path file_a)"
    by (simp add: not_selected_def)
  have i: "is_file file_a"
    by (simp add: file_a_def)
  have u: "load_hash_db fresh_state = Inr Map.empty" "Map.empty (rel_path file_a) = None"
    by (simp_all add: load_hash_db_def fresh_state_def)
  have r: "load_documents example_env ''./docs'' None fresh_state = (Inr [doc_a, doc_b], ?s')"
    by (rule example_first_run)
  from new_file_loaded [OF l o x' n i pg u r]
  obtain b ds where b: "bytes file_a = Some b"
    and ds: "run_loader example_env (file_name file_a)
               (os_path_join ''./docs'' (rel_path file_a)) file_a = Inr ds"
    and part: "sublist ds [doc_a, doc_b]"
    and fp: "stored_hash ?s' (rel_path file_a) = Some (md5_hexdigest example_env b)"
    by blast
  from b have b': "b = ''hello world''"
    by (simp add: file_a_def)
  from ds have ds': "ds = [doc_a]"
    by (simp add: run_loader_def TextLoader_def read_file_def endswith_def suffix_to_prefix
          os_path_join_def example_env_def file_a_def doc_a_def)
  have t: "source doc_a = os_path_join ''./docs'' (rel_path file_a)"
    by (simp add: doc_a_def file_a_def os_path_join_def suffix_to_prefix)
  from fp b' have "stored_hash ?s' ''a.txt'' = Some md5_a"
    by (simp add: file_a_def example_env_def example_md5_def)
  with part ds' l o x np n i u(1) r t show ?thesis
    by simp
qed

subsection \<open>Story generation in retrieval mode without a selection\<close>

lemma load_llm_state: "snd (load_llm env p s) = s\<lparr>http_log := http_log s @ [GetModels]\<rparr>"
  by (simp add: load_llm_def Let_def
        split: models_reply.splits models_body.splits sum.splits)

lemma load_llm_prompt: "load_llm env p s = load_llm env q s"
  by (simp add: load_llm_def)

lemma model_ids_error: "model_ids models = Inl e \<Longrightarrow> e = NoAttributeGet"
  by (induction models arbitrary: e)
     (auto simp add: json_get_def split: sum.splits json.splits)

lemma available_models_error:
  "available_models models_data = Inl e \<Longrightarrow> e = NoAttributeGet \<or> e = NotIterable"
  by (auto simp add: available_models_def json_get_def iterate_def
        split: sum.splits json.splits dest: model_ids_error)

text \<open>The exceptions of \<^verbatim>\<open>load_llm\<close>: a \<^verbatim>\<open>ConnectionError\<close>, or the \<^verbatim>\<open>AttributeError\<close> or
  \<^verbatim>\<open>TypeError\<close> of reading JSON of another shape than a dictionary with a list of
  dictionaries under \<^verbatim>\<open>data\<close>.\<close>

lemma load_llm_error:
  assumes "fst (load_llm env p s) = Inl e"
  shows "class_of e = ConnectionError \<or> class_of e = AttributeError \<or> class_of e = TypeError"
proof (cases "models_endpoint env")
  case NoReply
  with assms show ?thesis
    by (auto simp add: load_llm_def Let_def)
next
  case (Reply status_code body)
  show ?thesis
  proof (cases body)
    case NotJson
    with Reply assms show ?thesis
      by (auto simp add: load_llm_def Let_def split: if_splits)
  next
    case (Json models_data)
    show ?thesis
    proof (cases "available_models models_data")
      case (Inl x)
      with available_models_error have "x = NoAttributeGet \<or> x = NotIterable"
        by blast
      with Inl Json Reply assms show ?thesis
        by (auto simp add: load_llm_def Let_def split: if_splits)
    next
      case (Inr ids)
      with Json Reply assms show ?thesis
        by (auto simp add: load_llm_def Let_def split: if_splits)
    qed
  qed
qed

lemma choose_system_prompt_total: "\<exists>p. choose_system_prompt custom style = Inr p"
  by (simp add: choose_system_prompt_def subscript_def STORY_STYLES_def)

lemma rag_mode_normalised: "py_lower (py_strip ''RAG with Documents'') = ''rag with documents''"
  by code_simp

text \<open>A mode that ends in a no-break space is stripped to the direct mode.\<close>

lemma direct_mode_normalised:
  "py_lower (py_strip (''  Direct Generation'' @ [CHR 0xA0])) = ''direct generation''"
  by code_simp

lemma example_available_models:
  "available_models example_models = Inr [JString ''Qwen3-30B'']"
  by (simp add: available_models_def json_get_def dict_get_def iterate_def example_models_def)

lemma example_load_llm_any:
  "load_llm example_env p s = (Inr ChatOpenAI, s\<lparr>http_log := http_log s @ [GetModels]\<rparr>)"
proof -
  have "models_endpoint example_env = Reply 200 (Json example_models)"
    and "llm_model example_env = ''Qwen3-30B''"
    by (simp_all add: example_env_def)
  then show ?thesis
    by (simp add: load_llm_def example_available_models)
qed

lemma example_load_llm:
  "load_llm example_env p fresh_state = (Inr ChatOpenAI, fresh_state\<lparr>http_log := [GetModels]\<rparr>)"
  by (simp add: example_load_llm_any) (simp add: fresh_state_def)

text \<open>
  The claim C1 as it is written fails: \<^verbatim>\<open>generate_story\<close> calls \<^verbatim>\<open>load_llm\<close> before it
  looks at the mode or at the selection, and \<^verbatim>\<open>load_llm\<close> sends a request to the models
  endpoint. In the example world, with an empty log, the call in retrieval mode with
  the empty selection raises the validation error and the log then holds that request.
\<close>

theorem rag_probe_precedes_validation_counterexample:
  "py_lower (py_strip ''RAG with Documents'') \<noteq> ''direct generation'' \<and>
   http_log fresh_state = [] \<and>
   fst (generate_story example_env ''Write a story'' ''Creative Storyteller'' []
          ''RAG with Documents'' [] fresh_state) = Inl NoDocumentsSelected \<and>
   http_log (snd (generate_story example_env ''Write a story'' ''Creative Storyteller'' []
          ''RAG with Documents'' [] fresh_state)) = [GetModels]"
  by (simp add: generate_story_def choose_system_prompt_def subscript_def dict_get_def
        STORY_STYLES_def rag_mode_normalised example_load_llm rag_generation_def)
     (simp add: fresh_state_def)

text \<open>When the server does not answer, the same call raises the connection error of
  \<^verbatim>\<open>load_llm\<close> and no validation error; when the server answers with the JSON \<^verbatim>\<open>[]\<close> or
  \<^verbatim>\<open>{"data": null}\<close>, it raises the \<^verbatim>\<open>AttributeError\<close> or the \<^verbatim>\<open>TypeError\<close> of reading
  the reply.\<close>

lemma rag_without_selection_server_down:
  "generate_story (example_env\<lparr>models_endpoint := NoReply\<rparr>) ''Write a story''
     ''Creative Storyteller'' [] ''RAG with Documents'' [] fresh_state
   = (Inl ConnectFailed, fresh_state\<lparr>http_log := [GetModels]\<rparr>)"
  by (simp add: generate_story_def choose_system_prompt_def subscript_def dict_get_def
        STORY_STYLES_def load_llm_def example_env_def fresh_state_def)

lemma rag_without_selection_json_list:
  "generate_story (example_env\<lparr>models_endpoint := Reply 200 (Json (JArray []))\<rparr>)
     ''Write a story'' ''Creative Storyteller'' [] ''RAG with Documents'' [] fresh_state
   = (Inl NoAttributeGet, fresh_state\<lparr>http_log := [GetModels]\<rparr>)"
  by (simp add: generate_story_def choose_system_prompt_def subscript_def dict_get_def
        STORY_STYLES_def load_llm_def available_models_def json_get_def example_env_def
        fresh_state_def)

lemma rag_without_selection_data_null:
  "generate_story (example_env\<lparr>models_endpoint := Reply 200 (Json (JObject [(''data'', JNull)]))\<rparr>)
     ''Write a story'' ''Creative Storyteller'' [] ''RAG with Documents'' [] fresh_state
   = (Inl NotIterable, fresh_state\<lparr>http_log := [GetModels]\<rparr>)"
  by (simp add: generate_story_def choose_system_prompt_def subscript_def dict_get_def
        STORY_STYLES_def load_llm_def available_models_def json_get_def iterate_def
        example_env_def fresh_state_def)

text \<open>
  Claim C1, amended. For every call of \<^verbatim>\<open>generate_story\<close> in retrieval mode (the mode,
  stripped and lower-cased, is not \<^verbatim>\<open>direct generation\<close>) with the empty selection: the
  one request to the models endpoint that \<^verbatim>\<open>load_llm\<close> sends is the only effect of the
  call (no chat-completion request, no document loaded, nothing persisted); when
  \<^verbatim>\<open>load_llm\<close>, whose result does not depend on its argument, succeeds, the call raises
  the validation error \<^verbatim>\<open>ValueError("No documents selected for RAG mode")\<close>, and when
  \<^verbatim>\<open>load_llm\<close> raises, the call raises that exception, which is a \<^verbatim>\<open>ConnectionError\<close>,
  an \<^verbatim>\<open>AttributeError\<close> or a \<^verbatim>\<open>TypeError\<close> and no validation error.
\<close>

theorem rag_without_selection:
  assumes rag: "py_lower (py_strip mode) \<noteq> ''direct generation''"
  shows "snd (generate_story env user_input selected_style custom_prompt mode [] s)
           = s\<lparr>http_log := http_log s @ [GetModels]\<rparr> \<and>
         fst (generate_story env user_input selected_style custom_prompt mode [] s)
           = (case fst (load_llm env p s) of
                Inl e \<Rightarrow> Inl e
              | Inr l \<Rightarrow> Inl NoDocumentsSelected) \<and>
         (\<forall>e. fst (load_llm env p s) = Inl e \<longrightarrow>
            class_of e = ConnectionError \<or> class_of e = AttributeError
              \<or> class_of e = TypeError) \<and>
         class_of NoDocumentsSelected = ValueError"
proof -
  obtain q where q: "choose_system_prompt custom_prompt selected_style = Inr q"
    using choose_system_prompt_total by blast
  obtain r s1 where l: "load_llm env q s = (r, s1)"
    by (cases "load_llm env q s")
  then have s1: "s1 = s\<lparr>http_log := http_log s @ [GetModels]\<rparr>"
    using load_llm_state [of env q s] by simp
  have l': "load_llm env p s = (r, s1)"
    using l load_llm_prompt [of env p s q] by simp
  have g: "generate_story env user_input selected_style custom_prompt mode [] s
             = (case r of Inl e \<Rightarrow> (Inl e, s1) | Inr l \<Rightarrow> (Inl NoDocumentsSelected, s1))"
    using rag by (simp add: generate_story_def q l rag_generation_def Let_def split: sum.splits)
  have 1: "snd (generate_story env user_input selected_style custom_prompt mode [] s) = s1"
    by (simp add: g split: sum.splits)
  have 2: "fst (generate_story env user_input selected_style custom_prompt mode [] s)
           = (case fst (load_llm env p s) of
                Inl e \<Rightarrow> Inl e
              | Inr l \<Rightarrow> Inl NoDocumentsSelected)"
    by (simp add: g l' split: sum.splits)
  from 1 2 s1 load_llm_error [of env p s] show ?thesis
    by simp
qed

theorem rag_without_selection_witness:
  "py_lower (py_strip ''RAG with Documents'') \<noteq> ''direct generation'' \<and>
   generate_story example_env ''A storm at sea'' ''One Piece Writer'' ''Be brief.''
     ''RAG with Documents'' [] fresh_state
   = (Inl NoDocumentsSelected, fresh_state\<lparr>http_log := [GetModels]\<rparr>)"
proof -
  have m: "py_lower (py_strip ''RAG with Documents'') \<noteq> ''direct generation''"
    by (simp add: rag_mode_normalised)
  from rag_without_selection [OF m, of example_env "''A storm at sea''" "''One Piece Writer''"
         "''Be brief.''" fresh_state "''Be brief.''"]
  have "snd (generate_story example_env ''A storm at sea'' ''One Piece Writer'' ''Be brief.''
               ''RAG with Documents'' [] fresh_state) = fresh_state\<lparr>http_log := [GetModels]\<rparr>"
    and "fst (generate_story example_env ''A storm at sea'' ''One Piece Writer'' ''Be brief.''
               ''RAG with Documents'' [] fresh_state) = Inl NoDocumentsSelected"
    by (simp_all add: example_load_llm) (simp add: fresh_state_def)
  with m show ?thesis
    by (simp add: prod_eq_iff)
qed

subsection \<open>Complete runs in the example world\<close>

lemma example_add_story:
  "add_story example_env ''Write a story'' ''Once upon a time.'' (Some ''Be brief.'')
     (Some ''Creative Storyteller'') (Some mode) False s
   = (Inr (Suc (length (stories s))),
      s\<lparr>stories := stories s @
          [\<lparr>row_id = Suc (length (stories s)), row_prompt = ''Write a story'',
            row_response = ''Once upon a time.'', row_system_prompt = Some ''Be brief.'',
            row_style = Some ''Creative Storyteller'', row_created_at = ''2024-01-01 12:00:00'',
            row_mode = Some mode, row_memory_added = 0\<rparr>]\<rparr>)"
  by (simp add: add_story_def example_env_def Let_def)

lemma example_store_story:
  "store_story_to_memory example_env ''Once upon a time.'' ''2024-01-01T12:00:00'' s
   = (Inr ''./docs/memory_stories/story_2024-01-01_12-00-00.txt'',
      s\<lparr>text_files := (text_files s)
          (''./docs/memory_stories/story_2024-01-01_12-00-00.txt''
             \<mapsto> ''[Time: 2024-01-01T12:00:00]\<newline>\<newline>Once upon a time.\<newline>'')\<rparr>)"
  by (simp add: store_story_to_memory_def replace_char_def os_path_join_def
        MEMORY_STORIES_PATH_def DOCS_PATH_def suffix_to_prefix example_can_write Let_def)

lemma example_now: "now_isoformat example_env = ''2024-01-01T12:00:00''"
  by (simp add: example_env_def)

text \<open>Direct generation: the probe, one chat-completion request, one row in the story
  table and one story file.\<close>

lemma example_direct_generation:
  "generate_story example_env ''Write a story'' ''Creative Storyteller'' ''Be brief.''
     ''Direct Generation'' [] fresh_state
   = (Inr (''Once upon a time.'', NoSources, ''2024-01-01T12:00:00''),
      fresh_state
        \<lparr>text_files := [''./docs/memory_stories/story_2024-01-01_12-00-00.txt''
            \<mapsto> ''[Time: 2024-01-01T12:00:00]\<newline>\<newline>Once upon a time.\<newline>''],
         stories := [\<lparr>row_id = 1, row_prompt = ''Write a story'',
            row_response = ''Once upon a time.'', row_system_prompt = Some ''Be brief.'',
            row_style = Some ''Creative Storyteller'', row_created_at = ''2024-01-01 12:00:00'',
            row_mode = Some ''direct generation'', row_memory_added = 0\<rparr>],
         http_log := [GetModels, ChatCompletion]\<rparr>)"
proof -
  have m: "py_lower (py_strip ''Direct Generation'') = ''direct generation''"
    by code_simp
  have i: "invoke example_env l ''Be brief.'' ''Write a story'' s
             = (Inr ''Once upon a time.'', s\<lparr>http_log := http_log s @ [ChatCompletion]\<rparr>)" for l s
    by (simp add: invoke_def example_env_def Let_def)
  show ?thesis
    by (simp add: generate_story_def choose_system_prompt_def m example_load_llm Let_def
          direct_generation_def i example_add_story example_store_story example_now)
       (simp add: fresh_state_def)
qed

text \<open>Retrieval mode with \<^verbatim>\<open>a.txt\<close> selected, on the fresh state: the file is loaded and
  fingerprinted, a new index is built and saved, and the chain is called.\<close>

lemma example_rag_generation:
  "generate_story example_env ''Write a story'' ''Creative Storyteller'' ''Be brief.''
     ''RAG with Documents'' [''a.txt''] fresh_state
   = (Inr (''Once upon a time.'', Sources ''./docs/a.txt'', ''2024-01-01T12:00:00''),
      \<lparr>hash_db_file = Stored [''a.txt'' \<mapsto> md5_a],
       faiss_index = Index [doc_a],
       text_files = [''./docs/memory_stories/story_2024-01-01_12-00-00.txt''
            \<mapsto> ''[Time: 2024-01-01T12:00:00]\<newline>\<newline>Once upon a time.\<newline>''],
       stories = [\<lparr>row_id = 1, row_prompt = ''Write a story'',
            row_response = ''Once upon a time.'', row_system_prompt = Some ''Be brief.'',
            row_style = Some ''Creative Storyteller'', row_created_at = ''2024-01-01 12:00:00'',
            row_mode = Some ''rag with documents'', row_memory_added = 0\<rparr>],
       http_log = [GetModels, ChatCompletion]\<rparr>)"
proof -
  let ?s1 = "fresh_state\<lparr>http_log := [GetModels]\<rparr>"
  let ?s2 = "?s1\<lparr>hash_db_file := Stored [''a.txt'' \<mapsto> md5_a]\<rparr>"
  let ?s3 = "?s2\<lparr>faiss_index := Index [doc_a]\<rparr>"
  have docs: "load_documents example_env DOCS_PATH (Some [''a.txt'']) ?s1 = (Inr [doc_a], ?s2)"
    by (simp add: example_loader_defs DOCS_PATH_def)
  have idx: "append_to_index example_env [doc_a] ?s2 = (Inr [doc_a], ?s3)"
  proof -
    have e: "embedder_loads example_env" "split_documents example_env [doc_a] = [doc_a]"
      "from_documents example_env [doc_a] = Some [doc_a]"
      by (simp_all add: example_env_def)
    show ?thesis
      by (simp add: append_to_index_def index_exists_def save_local_def Let_def
            example_can_write e fresh_state_def)
  qed
  have chain: "run_chain example_env l [doc_a] ''Write a story'' s
                 = (Inr (''Once upon a time.'', ''./docs/a.txt''),
                    s\<lparr>http_log := http_log s @ [ChatCompletion]\<rparr>)" for l s
    by (simp add: run_chain_def example_env_def Let_def)
  show ?thesis
    by (simp add: generate_story_def choose_system_prompt_def rag_mode_normalised
          example_load_llm rag_generation_def docs idx chain example_add_story
          example_store_story example_now Let_def)
       (simp add: fresh_state_def)
qed

text \<open>The second run over the same directory returns no document for \<^verbatim>\<open>a.txt\<close>, so a
  request in retrieval mode that selects only \<^verbatim>\<open>a.txt\<close> then raises
  \<^verbatim>\<open>ValueError("No documents available for RAG mode")\<close>.\<close>

lemma example_rag_nothing_new:
  "fst (generate_story example_env ''Write a story'' ''Creative Storyteller'' ''Be brief.''
          ''RAG with Documents'' [''a.txt''] indexed_state) = Inl NoDocumentsAvailable"
proof -
  have l: "load_llm example_env p indexed_state
             = (Inr ChatOpenAI, indexed_state\<lparr>http_log := [GetModels]\<rparr>)" for p
    by (simp add: example_load_llm_any) (simp add: indexed_state_def)
  have "fst (load_documents example_env DOCS_PATH (Some [''a.txt''])
                (indexed_state\<lparr>http_log := [GetModels]\<rparr>)) = Inr []"
    by (simp add: example_loader_defs DOCS_PATH_def)
  then obtain s2 where docs: "load_documents example_env DOCS_PATH (Some [''a.txt''])
                (indexed_state\<lparr>http_log := [GetModels]\<rparr>) = (Inr [], s2)"
    by (cases "load_documents example_env DOCS_PATH (Some [''a.txt''])
                (indexed_state\<lparr>http_log := [GetModels]\<rparr>)") simp
  show ?thesis
    by (simp add: generate_story_def choose_system_prompt_def rag_mode_normalised l
          rag_generation_def docs Let_def)
qed

end
